theory Spec2Isabelle
  imports Complex_Main "HOL-Library.AList"
begin

section \<open>Domain objects held by the cache\<close>

text \<open>
  The value objects of \<^verbatim>\<open>models/\<close>, with the attributes their constructors set.
  Optional string attributes are \<^verbatim>\<open>None\<close> or a string.
\<close>

record artista =
  nombre :: string
  nacionalidad :: "string option"
  fecha_nacimiento :: "string option"
  fecha_muerte :: "string option"

record obra_arte =
  id_obra :: int
  titulo :: string
  artista :: artista
  clasificacion :: "string option"
  fecha_creacion :: "string option"
  url_imagen :: "string option"
  departamento :: "string option"

record departamento_museo =
  id_departamento :: int
  nombre_departamento :: string

text \<open>
  The cache is dynamically typed: an entry stores \<^verbatim>\<open>Any\<close>, and the store operations
  test their argument with \<^verbatim>\<open>isinstance\<close>. The Python values that reach the cache are
  therefore one datatype, with \<^verbatim>\<open>None\<close> a value of its own.
\<close>

datatype valor =
    VNone
  | VObra obra_arte
  | VDepartamento departamento_museo
  | VInt int
  | VStr string
  | VLista "valor list"

fun es_ObraArte :: "valor \<Rightarrow> bool" where
  "es_ObraArte (VObra _) = True"
| "es_ObraArte _ = False"

fun es_lista :: "valor \<Rightarrow> bool" where
  "es_lista (VLista _) = True"
| "es_lista _ = False"

datatype error = ValueError string | KeyError | ZeroDivisionError

section \<open>Python dictionaries\<close>

text \<open>
  A \<^verbatim>\<open>dict\<close> is an association list in insertion order. Python keeps one entry per
  key; that is the predicate \<open>dict_ok\<close>. Reading or deleting an absent key raises
  \<^verbatim>\<open>KeyError\<close>; assigning to a present key replaces the value in place, assigning to an
  absent one appends.
\<close>

type_synonym ('k, 'v) dict = "('k \<times> 'v) list"

definition dict_ok :: "('k, 'v) dict \<Rightarrow> bool" where
  "dict_ok d = distinct (map fst d)"

definition dict_contains :: "('k, 'v) dict \<Rightarrow> 'k \<Rightarrow> bool" where
  "dict_contains d k = (map_of d k \<noteq> None)"

definition dict_getitem :: "('k, 'v) dict \<Rightarrow> 'k \<Rightarrow> error + 'v" where
  "dict_getitem d k = (case map_of d k of None \<Rightarrow> Inl KeyError | Some v \<Rightarrow> Inr v)"

definition dict_setitem :: "('k, 'v) dict \<Rightarrow> 'k \<Rightarrow> 'v \<Rightarrow> ('k, 'v) dict" where
  "dict_setitem d k v = AList.update k v d"

definition dict_delitem :: "('k, 'v) dict \<Rightarrow> 'k \<Rightarrow> error + ('k, 'v) dict" where
  "dict_delitem d k = (if dict_contains d k then Inr (AList.delete k d) else Inl KeyError)"

definition dict_len :: "('k, 'v) dict \<Rightarrow> int" where
  "dict_len d = int (length d)"

text \<open>The loop \<^verbatim>\<open>for k in ks: del d[k]\<close>; it stops at the first \<^verbatim>\<open>KeyError\<close>,
  with the deletions made so far in place.\<close>

fun eliminar_claves :: "'k list \<Rightarrow> ('k, 'v) dict \<Rightarrow> (error + unit) \<times> ('k, 'v) dict" where
  "eliminar_claves [] d = (Inr (), d)"
| "eliminar_claves (k # ks) d =
     (case dict_delitem d k of
        Inl err \<Rightarrow> (Inl err, d)
      | Inr d' \<Rightarrow> eliminar_claves ks d')"

text \<open>Python's \<^verbatim>\<open>a / b\<close> on integers and \<^verbatim>\<open>int(x)\<close> on a float (truncation towards zero).\<close>

definition py_truediv :: "int \<Rightarrow> int \<Rightarrow> error + real" where
  "py_truediv a b = (if b = 0 then Inl ZeroDivisionError else Inr (real_of_int a / real_of_int b))"

definition py_int :: "real \<Rightarrow> int" where
  "py_int x = (if 0 \<le> x then \<lfloor>x\<rfloor> else \<lceil>x\<rceil>)"

section \<open>EntradaCache\<close>

text \<open>
  \<^verbatim>\<open>time.time()\<close> is an explicit argument \<open>now\<close>, in seconds; one public call of the
  store reads one instant. The constructor captures it as the timestamp.
\<close>

record entrada_cache =
  datos :: valor
  timestamp :: real
  tiempo_vida :: real

definition EntradaCache :: "real \<Rightarrow> valor \<Rightarrow> real \<Rightarrow> entrada_cache" where
  "EntradaCache now d tv = \<lparr>datos = d, timestamp = now, tiempo_vida = tv\<rparr>"

definition es_valida :: "real \<Rightarrow> entrada_cache \<Rightarrow> bool" where
  "es_valida now e = ((now - timestamp e) < tiempo_vida e)"

definition obtener_datos :: "real \<Rightarrow> entrada_cache \<Rightarrow> valor" where
  "obtener_datos now e = (if es_valida now e then datos e else VNone)"

section \<open>AlmacenDatos\<close>

definition TIEMPO_VIDA_OBRAS :: real where "TIEMPO_VIDA_OBRAS = 600"
definition TIEMPO_VIDA_DEPARTAMENTOS :: real where "TIEMPO_VIDA_DEPARTAMENTOS = 1800"
definition TIEMPO_VIDA_BUSQUEDAS :: real where "TIEMPO_VIDA_BUSQUEDAS = 300"
definition TIEMPO_VIDA_LISTAS_IDS :: real where "TIEMPO_VIDA_LISTAS_IDS = 180"

record estadisticas =
  hits_obras :: int
  misses_obras :: int
  hits_departamentos :: int
  misses_departamentos :: int
  hits_busquedas :: int
  misses_busquedas :: int
  limpiezas_automaticas :: int

record almacen_datos =
  cache_obras :: "(int, entrada_cache) dict"
  cache_departamentos :: "entrada_cache option"
  cache_busquedas :: "(string, entrada_cache) dict"
  cache_ids_departamento :: "(int, entrada_cache) dict"
  estadisticas :: estadisticas

text \<open>\<^verbatim>\<open>AlmacenDatos.__init__\<close>.\<close>

definition almacen_inicial :: almacen_datos where
  "almacen_inicial =
     \<lparr>cache_obras = [], cache_departamentos = None, cache_busquedas = [],
      cache_ids_departamento = [],
      estadisticas = \<lparr>hits_obras = 0, misses_obras = 0, hits_departamentos = 0,
        misses_departamentos = 0, hits_busquedas = 0, misses_busquedas = 0,
        limpiezas_automaticas = 0\<rparr>\<rparr>"

text \<open>
  A method is a function from the store to its outcome and the store it leaves behind:
  \<open>Inr\<close> the returned value, \<open>Inl\<close> the exception, so that the state at a raise is
  part of the model.
\<close>

type_synonym 'a resultado = "(error + 'a) \<times> almacen_datos"

subsection \<open>Expiry sweep\<close>

definition claves_expiradas :: "real \<Rightarrow> ('k, entrada_cache) dict \<Rightarrow> 'k list" where
  "claves_expiradas now d = [k. (k, entrada) \<leftarrow> d, \<not> es_valida now entrada]"

definition limpiar_entradas_expiradas :: "real \<Rightarrow> almacen_datos \<Rightarrow> unit resultado" where
  "limpiar_entradas_expiradas now s =
     (case eliminar_claves (claves_expiradas now (cache_obras s)) (cache_obras s) of
        (Inl err, d) \<Rightarrow> (Inl err, s\<lparr>cache_obras := d\<rparr>)
      | (Inr _, d1) \<Rightarrow>
          (let s1 = s\<lparr>cache_obras := d1\<rparr> in
           case eliminar_claves (claves_expiradas now (cache_busquedas s1)) (cache_busquedas s1) of
             (Inl err, d) \<Rightarrow> (Inl err, s1\<lparr>cache_busquedas := d\<rparr>)
           | (Inr _, d2) \<Rightarrow>
               (let s2 = s1\<lparr>cache_busquedas := d2\<rparr> in
                case eliminar_claves (claves_expiradas now (cache_ids_departamento s2))
                       (cache_ids_departamento s2) of
                  (Inl err, d) \<Rightarrow> (Inl err, s2\<lparr>cache_ids_departamento := d\<rparr>)
                | (Inr _, d3) \<Rightarrow>
                    (let s3 = s2\<lparr>cache_ids_departamento := d3\<rparr> in
                     (Inr (),
                      (case cache_departamentos s3 of
                         None \<Rightarrow> s3
                       | Some entrada \<Rightarrow>
                           if \<not> es_valida now entrada
                           then s3\<lparr>cache_departamentos := None\<rparr> else s3))))))"

definition limpiar_cache_si_necesario :: "real \<Rightarrow> almacen_datos \<Rightarrow> unit resultado" where
  "limpiar_cache_si_necesario now s =
     (let total_entradas = dict_len (cache_obras s) + dict_len (cache_busquedas s)
            + dict_len (cache_ids_departamento s) in
      if total_entradas > 1000 then
        (case limpiar_entradas_expiradas now s of
           (Inl err, s') \<Rightarrow> (Inl err, s')
         | (Inr _, s') \<Rightarrow>
             (Inr (), s'\<lparr>estadisticas := (estadisticas s')
                \<lparr>limpiezas_automaticas := limpiezas_automaticas (estadisticas s') + 1\<rparr>\<rparr>))
      else (Inr (), s))"

subsection \<open>Works region\<close>

definition obtener_obra :: "real \<Rightarrow> int \<Rightarrow> almacen_datos \<Rightarrow> valor resultado" where
  "obtener_obra now id_o s =
     (if dict_contains (cache_obras s) id_o then
        (case dict_getitem (cache_obras s) id_o of
           Inl err \<Rightarrow> (Inl err, s)
         | Inr entrada \<Rightarrow>
             (let obra = obtener_datos now entrada in
              if obra \<noteq> VNone then
                (Inr obra, s\<lparr>estadisticas := (estadisticas s)
                   \<lparr>hits_obras := hits_obras (estadisticas s) + 1\<rparr>\<rparr>)
              else
                (case dict_delitem (cache_obras s) id_o of
                   Inl err \<Rightarrow> (Inl err, s)
                 | Inr d \<Rightarrow>
                     (Inr VNone, s\<lparr>cache_obras := d, estadisticas := (estadisticas s)
                        \<lparr>misses_obras := misses_obras (estadisticas s) + 1\<rparr>\<rparr>))))
      else
        (Inr VNone, s\<lparr>estadisticas := (estadisticas s)
           \<lparr>misses_obras := misses_obras (estadisticas s) + 1\<rparr>\<rparr>))"

definition almacenar_obra :: "real \<Rightarrow> valor \<Rightarrow> almacen_datos \<Rightarrow> unit resultado" where
  "almacenar_obra now obra s =
     (case obra of
        VObra w \<Rightarrow>
          (let entrada = EntradaCache now obra TIEMPO_VIDA_OBRAS in
           limpiar_cache_si_necesario now
             (s\<lparr>cache_obras := dict_setitem (cache_obras s) (id_obra w) entrada\<rparr>))
      | _ \<Rightarrow> (Inl (ValueError ''El parametro debe ser una instancia de ObraArte''), s))"

subsection \<open>Departments slot\<close>

definition obtener_departamentos :: "real \<Rightarrow> almacen_datos \<Rightarrow> valor resultado" where
  "obtener_departamentos now s =
     (case cache_departamentos s of
        Some entrada \<Rightarrow>
          (let departamentos = obtener_datos now entrada in
           if departamentos \<noteq> VNone then
             (Inr departamentos, s\<lparr>estadisticas := (estadisticas s)
                \<lparr>hits_departamentos := hits_departamentos (estadisticas s) + 1\<rparr>\<rparr>)
           else
             (Inr VNone, s\<lparr>cache_departamentos := None, estadisticas := (estadisticas s)
                \<lparr>misses_departamentos := misses_departamentos (estadisticas s) + 1\<rparr>\<rparr>))
      | None \<Rightarrow>
          (Inr VNone, s\<lparr>estadisticas := (estadisticas s)
             \<lparr>misses_departamentos := misses_departamentos (estadisticas s) + 1\<rparr>\<rparr>))"

definition almacenar_departamentos :: "real \<Rightarrow> valor \<Rightarrow> almacen_datos \<Rightarrow> unit resultado" where
  "almacenar_departamentos now departamentos s =
     (if \<not> es_lista departamentos then
        (Inl (ValueError ''El parametro debe ser una lista de departamentos''), s)
      else
        (let entrada = EntradaCache now departamentos TIEMPO_VIDA_DEPARTAMENTOS in
         (Inr (), s\<lparr>cache_departamentos := Some entrada\<rparr>)))"

subsection \<open>Search-results region\<close>

definition obtener_resultado_busqueda :: "real \<Rightarrow> string \<Rightarrow> almacen_datos \<Rightarrow> valor resultado" where
  "obtener_resultado_busqueda now clave_busqueda s =
     (if dict_contains (cache_busquedas s) clave_busqueda then
        (case dict_getitem (cache_busquedas s) clave_busqueda of
           Inl err \<Rightarrow> (Inl err, s)
         | Inr entrada \<Rightarrow>
             (let resultado = obtener_datos now entrada in
              if resultado \<noteq> VNone then
                (Inr resultado, s\<lparr>estadisticas := (estadisticas s)
                   \<lparr>hits_busquedas := hits_busquedas (estadisticas s) + 1\<rparr>\<rparr>)
              else
                (case dict_delitem (cache_busquedas s) clave_busqueda of
                   Inl err \<Rightarrow> (Inl err, s)
                 | Inr d \<Rightarrow>
                     (Inr VNone, s\<lparr>cache_busquedas := d, estadisticas := (estadisticas s)
                        \<lparr>misses_busquedas := misses_busquedas (estadisticas s) + 1\<rparr>\<rparr>))))
      else
        (Inr VNone, s\<lparr>estadisticas := (estadisticas s)
           \<lparr>misses_busquedas := misses_busquedas (estadisticas s) + 1\<rparr>\<rparr>))"

definition almacenar_resultado_busqueda ::
    "real \<Rightarrow> string \<Rightarrow> valor \<Rightarrow> almacen_datos \<Rightarrow> unit resultado" where
  "almacenar_resultado_busqueda now clave_busqueda ids_obras s =
     (if \<not> es_lista ids_obras then (Inl (ValueError ''ids_obras debe ser una lista''), s)
      else
        (let entrada = EntradaCache now ids_obras TIEMPO_VIDA_BUSQUEDAS in
         limpiar_cache_si_necesario now
           (s\<lparr>cache_busquedas := dict_setitem (cache_busquedas s) clave_busqueda entrada\<rparr>)))"

subsection \<open>Department-id-lists region\<close>

definition obtener_ids_departamento :: "real \<Rightarrow> int \<Rightarrow> almacen_datos \<Rightarrow> valor resultado" where
  "obtener_ids_departamento now id_dept s =
     (if dict_contains (cache_ids_departamento s) id_dept then
        (case dict_getitem (cache_ids_departamento s) id_dept of
           Inl err \<Rightarrow> (Inl err, s)
         | Inr entrada \<Rightarrow>
             (let ids = obtener_datos now entrada in
              if ids \<noteq> VNone then (Inr ids, s)
              else
                (case dict_delitem (cache_ids_departamento s) id_dept of
                   Inl err \<Rightarrow> (Inl err, s)
                 | Inr d \<Rightarrow> (Inr VNone, s\<lparr>cache_ids_departamento := d\<rparr>))))
      else (Inr VNone, s))"

definition almacenar_ids_departamento ::
    "real \<Rightarrow> int \<Rightarrow> valor \<Rightarrow> almacen_datos \<Rightarrow> unit resultado" where
  "almacenar_ids_departamento now id_dept ids_obras s =
     (if \<not> es_lista ids_obras then (Inl (ValueError ''ids_obras debe ser una lista''), s)
      else
        (let entrada = EntradaCache now ids_obras TIEMPO_VIDA_LISTAS_IDS in
         (Inr (), s\<lparr>cache_ids_departamento :=
            dict_setitem (cache_ids_departamento s) id_dept entrada\<rparr>)))"

subsection \<open>Scan, invalidation\<close>

text \<open>
  The predicate is supplied by the caller and is called unguarded, so it either answers or
  raises; its exception leaves the loop and the method. The loop appends to
  \<^verbatim>\<open>obras_encontradas\<close> the valid cached values on which the predicate answers true.
\<close>

fun recorrer_obras ::
    "real \<Rightarrow> (valor \<Rightarrow> error + bool) \<Rightarrow> entrada_cache list \<Rightarrow> valor list \<Rightarrow> error + valor list" where
  "recorrer_obras now criterio [] obras_encontradas = Inr obras_encontradas"
| "recorrer_obras now criterio (entrada # resto) obras_encontradas =
     (let obra = obtener_datos now entrada in
      if obra \<noteq> VNone then
        (case criterio obra of
           Inl err \<Rightarrow> Inl err
         | Inr cumple \<Rightarrow>
             recorrer_obras now criterio resto
               (if cumple then obras_encontradas @ [obra] else obras_encontradas))
      else recorrer_obras now criterio resto obras_encontradas)"

definition buscar_obras_por_criterio ::
    "real \<Rightarrow> (valor \<Rightarrow> error + bool) \<Rightarrow> almacen_datos \<Rightarrow> (valor list) resultado" where
  "buscar_obras_por_criterio now criterio s =
     (recorrer_obras now criterio (map snd (cache_obras s)) [], s)"

definition invalidar_cache_obras :: "almacen_datos \<Rightarrow> unit resultado" where
  "invalidar_cache_obras s = (Inr (), s\<lparr>cache_obras := []\<rparr>)"

definition invalidar_cache_departamentos :: "almacen_datos \<Rightarrow> unit resultado" where
  "invalidar_cache_departamentos s = (Inr (), s\<lparr>cache_departamentos := None\<rparr>)"

definition invalidar_cache_busquedas :: "almacen_datos \<Rightarrow> unit resultado" where
  "invalidar_cache_busquedas s = (Inr (), s\<lparr>cache_busquedas := []\<rparr>)"

definition invalidar_todo_cache :: "almacen_datos \<Rightarrow> unit resultado" where
  "invalidar_todo_cache s =
     (Inr (), s\<lparr>cache_obras := [], cache_departamentos := None, cache_busquedas := [],
                cache_ids_departamento := []\<rparr>)"

subsection \<open>Statistics\<close>

definition estimar_uso_memoria :: "almacen_datos \<Rightarrow> int" where
  "estimar_uso_memoria s =
     (let memoria_obras = dict_len (cache_obras s) * 2;
          memoria_departamentos = (case cache_departamentos s of Some _ \<Rightarrow> 5 | None \<Rightarrow> (0::int));
          memoria_busquedas = real_of_int (dict_len (cache_busquedas s)) * (1 / 2);
          memoria_ids_dept = dict_len (cache_ids_departamento s) * 1
      in py_int (real_of_int memoria_obras + real_of_int memoria_departamentos
                 + memoria_busquedas + real_of_int memoria_ids_dept))"

record estadisticas_cache = estadisticas +
  obras_en_cache :: int
  busquedas_en_cache :: int
  departamentos_en_cache :: int
  ids_departamentos_en_cache :: int
  memoria_estimada_kb :: int
  hit_ratio_obras :: real
  hit_ratio_departamentos :: real
  hit_ratio_busquedas :: real

text \<open>The expression \<^verbatim>\<open>hits / total if total > 0 else 0\<close>.\<close>

definition hit_ratio :: "int \<Rightarrow> int \<Rightarrow> error + real" where
  "hit_ratio hits total_region = (if total_region > 0 then py_truediv hits total_region else Inr 0)"

definition obtener_estadisticas_cache :: "almacen_datos \<Rightarrow> estadisticas_cache resultado" where
  "obtener_estadisticas_cache s =
     (let est = estadisticas s;
          total_obras = hits_obras est + misses_obras est;
          total_departamentos = hits_departamentos est + misses_departamentos est;
          total_busquedas = hits_busquedas est + misses_busquedas est
      in case hit_ratio (hits_obras est) total_obras of
           Inl err \<Rightarrow> (Inl err, s)
         | Inr r_obras \<Rightarrow>
            (case hit_ratio (hits_departamentos est) total_departamentos of
               Inl err \<Rightarrow> (Inl err, s)
             | Inr r_departamentos \<Rightarrow>
                (case hit_ratio (hits_busquedas est) total_busquedas of
                   Inl err \<Rightarrow> (Inl err, s)
                 | Inr r_busquedas \<Rightarrow>
                    (Inr (estadisticas.extend est
                       (estadisticas_cache.fields
                          (dict_len (cache_obras s))
                          (dict_len (cache_busquedas s))
                          (case cache_departamentos s of Some _ \<Rightarrow> 1 | None \<Rightarrow> 0)
                          (dict_len (cache_ids_departamento s))
                          (estimar_uso_memoria s)
                          r_obras r_departamentos r_busquedas)), s))))"

subsection \<open>Manual cleanup\<close>

record eliminados =
  obras_eliminadas :: int
  busquedas_eliminadas :: int
  ids_departamentos_eliminados :: int
  departamentos_eliminados :: int

definition contar_departamentos :: "almacen_datos \<Rightarrow> int" where
  "contar_departamentos s = (case cache_departamentos s of Some _ \<Rightarrow> 1 | None \<Rightarrow> 0)"

definition limpiar_cache_manual :: "real \<Rightarrow> almacen_datos \<Rightarrow> eliminados resultado" where
  "limpiar_cache_manual now s =
     (case limpiar_entradas_expiradas now s of
        (Inl err, s') \<Rightarrow> (Inl err, s')
      | (Inr _, s') \<Rightarrow>
          (Inr \<lparr>obras_eliminadas = dict_len (cache_obras s) - dict_len (cache_obras s'),
                busquedas_eliminadas =
                  dict_len (cache_busquedas s) - dict_len (cache_busquedas s'),
                ids_departamentos_eliminados =
                  dict_len (cache_ids_departamento s) - dict_len (cache_ids_departamento s'),
                departamentos_eliminados =
                  contar_departamentos s - contar_departamentos s'\<rparr>, s'))"

section \<open>Invariants and derived notions\<close>

text \<open>Every dictionary of the store has one entry per key, as a Python \<^verbatim>\<open>dict\<close> does.\<close>

definition claves_ok :: "almacen_datos \<Rightarrow> bool" where
  "claves_ok s = (dict_ok (cache_obras s) \<and> dict_ok (cache_busquedas s)
      \<and> dict_ok (cache_ids_departamento s))"

text \<open>
  What the store operations put into each region: works in the works region, lists in the
  other three. In particular no entry holds \<^verbatim>\<open>None\<close>.
\<close>

definition tipos_ok :: "almacen_datos \<Rightarrow> bool" where
  "tipos_ok s =
     (list_all (\<lambda>p. es_ObraArte (datos (snd p))) (cache_obras s)
      \<and> list_all (\<lambda>p. es_lista (datos (snd p))) (cache_busquedas s)
      \<and> list_all (\<lambda>p. es_lista (datos (snd p))) (cache_ids_departamento s)
      \<and> (case cache_departamentos s of None \<Rightarrow> True | Some e \<Rightarrow> es_lista (datos e)))"

definition almacen_ok :: "almacen_datos \<Rightarrow> bool" where
  "almacen_ok s = (claves_ok s \<and> tipos_ok s)"

text \<open>The entries of a dictionary that are valid at \<open>now\<close>, and the expired ones.\<close>

definition entradas_validas :: "real \<Rightarrow> ('k, entrada_cache) dict \<Rightarrow> ('k, entrada_cache) dict" where
  "entradas_validas now d = filter (\<lambda>(k, entrada). es_valida now entrada) d"

definition entradas_expiradas :: "real \<Rightarrow> ('k, entrada_cache) dict \<Rightarrow> ('k, entrada_cache) dict" where
  "entradas_expiradas now d = filter (\<lambda>(k, entrada). \<not> es_valida now entrada) d"

text \<open>The store with every expired entry of the four regions removed.\<close>

definition almacen_barrido :: "real \<Rightarrow> almacen_datos \<Rightarrow> almacen_datos" where
  "almacen_barrido now s =
     s\<lparr>cache_obras := entradas_validas now (cache_obras s),
       cache_busquedas := entradas_validas now (cache_busquedas s),
       cache_ids_departamento := entradas_validas now (cache_ids_departamento s),
       cache_departamentos :=
         (case cache_departamentos s of
            None \<Rightarrow> None
          | Some e \<Rightarrow> if es_valida now e then Some e else None)\<rparr>"

definition total_entradas :: "almacen_datos \<Rightarrow> int" where
  "total_entradas s = dict_len (cache_obras s) + dict_len (cache_busquedas s)
      + dict_len (cache_ids_departamento s)"

section \<open>Concrete objects and stores\<close>

definition artista_ejemplo :: artista where
  "artista_ejemplo =
     \<lparr>nombre = ''Vincent van Gogh'', nacionalidad = Some ''Dutch'',
      fecha_nacimiento = Some ''1853'', fecha_muerte = Some ''1890''\<rparr>"

definition obra_ejemplo :: "int \<Rightarrow> string \<Rightarrow> obra_arte" where
  "obra_ejemplo i t =
     \<lparr>id_obra = i, titulo = t, artista = artista_ejemplo, clasificacion = Some ''Paintings'',
      fecha_creacion = None, url_imagen = None, departamento = None\<rparr>"

text \<open>The store of the manual-cleanup test: work 1 in an entry with a time-to-live of 0.1 s,
  work 2 stored through \<open>almacenar_obra\<close>, both at instant 0.\<close>

definition almacen_dos_obras :: almacen_datos where
  "almacen_dos_obras =
     almacen_inicial\<lparr>cache_obras :=
       [(1, EntradaCache 0 (VObra (obra_ejemplo 1 ''Obra 1'')) (1 / 10)),
        (2, EntradaCache 0 (VObra (obra_ejemplo 2 ''Obra 2'')) TIEMPO_VIDA_OBRAS)]\<rparr>"

text \<open>A thousand works stored at instant 0, ids 1 to 1000.\<close>

definition almacen_mil_obras :: almacen_datos where
  "almacen_mil_obras =
     almacen_inicial\<lparr>cache_obras :=
       map (\<lambda>i. (int i, EntradaCache 0 (VObra (obra_ejemplo (int i) ''Obra'')) TIEMPO_VIDA_OBRAS))
         [1..<1001]\<rparr>"

text \<open>Only the departments slot occupied.\<close>

definition almacen_solo_departamentos :: almacen_datos where
  "almacen_solo_departamentos =
     almacen_inicial\<lparr>cache_departamentos :=
       Some (EntradaCache 0 (VLista []) TIEMPO_VIDA_DEPARTAMENTOS)\<rparr>"

text \<open>
  The memory heuristic in the words of the specification: 2 KB per work, 0.1 KB for the
  departments slot when occupied, 0.5 KB per search result, 1 KB per department id list.
\<close>

definition memoria_segun_spec :: "almacen_datos \<Rightarrow> real" where
  "memoria_segun_spec s =
     2 * real_of_int (dict_len (cache_obras s))
     + (case cache_departamentos s of Some _ \<Rightarrow> 1 / 10 | None \<Rightarrow> 0)
     + (1 / 2) * real_of_int (dict_len (cache_busquedas s))
     + 1 * real_of_int (dict_len (cache_ids_departamento s))"

text \<open>The statistics test: from the empty store, work 123 is stored, read (a hit), and
  id 999 is read (a miss).\<close>

definition almacen_un_hit_un_miss :: almacen_datos where
  "almacen_un_hit_un_miss =
     snd (obtener_obra 2 999
       (snd (obtener_obra 1 123
         (snd (almacenar_obra 0 (VObra (obra_ejemplo 123 ''The Starry Night''))
            almacen_inicial)))))"

text \<open>The empty store after \<open>almacenar_ids_departamento(1, [123])\<close> at instant 0.\<close>

definition almacen_con_ids :: almacen_datos where
  "almacen_con_ids = snd (almacenar_ids_departamento 0 1 (VLista [VInt 123]) almacen_inicial)"



section \<open>The expiry sweep keeps exactly the valid entries\<close>

lemma delete_filter: "AList.delete k d = filter (\<lambda>p. fst p \<noteq> k) d"
  by (induction d) (auto simp: AList.delete_eq)

lemma dict_contains_iff: "dict_contains d k \<longleftrightarrow> k \<in> fst ` set d"
  by (simp add: dict_contains_def map_of_eq_None_iff)

lemma eliminar_claves_filter:
  "distinct ks \<Longrightarrow> set ks \<subseteq> fst ` set d \<Longrightarrow>
   eliminar_claves ks d = (Inr (), filter (\<lambda>p. fst p \<notin> set ks) d)"
proof (induction ks arbitrary: d)
  case Nil
  then show ?case by simp
next
  case (Cons k ks)
  have kin: "dict_contains d k"
    using Cons.prems(2) by (simp add: dict_contains_iff)
  have sub: "set ks \<subseteq> fst ` set (AList.delete k d)"
  proof
    fix x assume x: "x \<in> set ks"
    then have "x \<noteq> k" using Cons.prems(1) by auto
    moreover from x Cons.prems(2) obtain p where "p \<in> set d" "fst p = x" by auto
    ultimately show "x \<in> fst ` set (AList.delete k d)"
      by (force simp: delete_filter)
  qed
  have dk: "distinct ks" using Cons.prems(1) by simp
  have "eliminar_claves ks (AList.delete k d)
          = (Inr (), filter (\<lambda>p. fst p \<notin> set ks) (AList.delete k d))"
    by (rule Cons.IH [OF dk sub])
  moreover have "filter (\<lambda>p. fst p \<notin> set ks) (AList.delete k d)
          = filter (\<lambda>p. fst p \<notin> set (k # ks)) d"
    by (simp add: delete_filter conj_commute)
  ultimately show ?case using kin by (simp add: dict_delitem_def)
qed


lemma claves_expiradas_filter:
  "claves_expiradas now d = map fst (filter (\<lambda>p. \<not> es_valida now (snd p)) d)"
  unfolding claves_expiradas_def by (induction d) (simp_all add: case_prod_beta)

lemma claves_expiradas_distinct: "dict_ok d \<Longrightarrow> distinct (claves_expiradas now d)"
  unfolding claves_expiradas_filter dict_ok_def by (rule distinct_map_filter)

lemma claves_expiradas_sub: "set (claves_expiradas now d) \<subseteq> fst ` set d"
  unfolding claves_expiradas_filter by auto

lemma claves_expiradas_mem:
  "dict_ok d \<Longrightarrow> (k, e) \<in> set d \<Longrightarrow> k \<in> set (claves_expiradas now d) \<longleftrightarrow> \<not> es_valida now e"
proof -
  assume ok: "dict_ok d" and ke: "(k, e) \<in> set d"
  have uniq: "e' = e" if "(k, e') \<in> set d" for e'
    using ok ke that unfolding dict_ok_def by (metis eq_key_imp_eq_value)
  show ?thesis
  proof
    assume "k \<in> set (claves_expiradas now d)"
    then obtain p where "p \<in> set d" "fst p = k" "\<not> es_valida now (snd p)"
      unfolding claves_expiradas_filter by auto
    then show "\<not> es_valida now e" using uniq [of "snd p"] by (cases p) auto
  next
    assume "\<not> es_valida now e"
    then show "k \<in> set (claves_expiradas now d)"
      unfolding claves_expiradas_filter using ke by force
  qed
qed


lemma eliminar_claves_expiradas:
  assumes "dict_ok d"
  shows "eliminar_claves (claves_expiradas now d) d = (Inr (), entradas_validas now d)"
proof -
  have "filter (\<lambda>p. fst p \<notin> set (claves_expiradas now d)) d = entradas_validas now d"
    unfolding entradas_validas_def
  proof (rule filter_cong [OF refl])
    fix p assume p: "p \<in> set d"
    obtain k e where pe: "p = (k, e)" by (cases p)
    show "(fst p \<notin> set (claves_expiradas now d)) = (case p of (k, entrada) \<Rightarrow> es_valida now entrada)"
      using claves_expiradas_mem [OF assms, of k e now] p pe by simp
  qed
  then show ?thesis
    using eliminar_claves_filter [OF claves_expiradas_distinct [OF assms] claves_expiradas_sub]
    by simp
qed

lemma dict_ok_entradas_validas: "dict_ok d \<Longrightarrow> dict_ok (entradas_validas now d)"
  unfolding dict_ok_def entradas_validas_def by (rule distinct_map_filter)


lemma limpiar_entradas_expiradas_ok:
  assumes "claves_ok s"
  shows "limpiar_entradas_expiradas now s = (Inr (), almacen_barrido now s)"
proof -
  have o: "dict_ok (cache_obras s)" and b: "dict_ok (cache_busquedas s)"
    and i: "dict_ok (cache_ids_departamento s)"
    using assms by (simp_all add: claves_ok_def)
  show ?thesis
    unfolding limpiar_entradas_expiradas_def almacen_barrido_def
    by (simp add: eliminar_claves_expiradas [OF o] eliminar_claves_expiradas [OF b]
          eliminar_claves_expiradas [OF i] split: option.split)
qed

lemma claves_ok_barrido: "claves_ok s \<Longrightarrow> claves_ok (almacen_barrido now s)"
  by (simp add: claves_ok_def almacen_barrido_def dict_ok_entradas_validas)

lemma limpiar_cache_si_necesario_ok:
  assumes "claves_ok s"
  shows "limpiar_cache_si_necesario now s =
     (if total_entradas s > 1000
      then (Inr (), (almacen_barrido now s)\<lparr>estadisticas := (estadisticas s)
              \<lparr>limpiezas_automaticas := limpiezas_automaticas (estadisticas s) + 1\<rparr>\<rparr>)
      else (Inr (), s))"
  unfolding limpiar_cache_si_necesario_def total_entradas_def
  by (simp add: limpiar_entradas_expiradas_ok [OF assms] almacen_barrido_def)

section \<open>The store operations in closed form\<close>

lemma obtener_obra_eq:
  "obtener_obra now k s =
     (case map_of (cache_obras s) k of
        None \<Rightarrow> (Inr VNone, s\<lparr>estadisticas := (estadisticas s)
                    \<lparr>misses_obras := misses_obras (estadisticas s) + 1\<rparr>\<rparr>)
      | Some e \<Rightarrow>
          if es_valida now e \<and> datos e \<noteq> VNone
          then (Inr (datos e), s\<lparr>estadisticas := (estadisticas s)
                    \<lparr>hits_obras := hits_obras (estadisticas s) + 1\<rparr>\<rparr>)
          else (Inr VNone, s\<lparr>cache_obras := AList.delete k (cache_obras s),
                    estadisticas := (estadisticas s)
                    \<lparr>misses_obras := misses_obras (estadisticas s) + 1\<rparr>\<rparr>))"
  by (simp add: obtener_obra_def dict_contains_def dict_getitem_def dict_delitem_def
        obtener_datos_def Let_def split: option.split)

lemma obtener_resultado_busqueda_eq:
  "obtener_resultado_busqueda now k s =
     (case map_of (cache_busquedas s) k of
        None \<Rightarrow> (Inr VNone, s\<lparr>estadisticas := (estadisticas s)
                    \<lparr>misses_busquedas := misses_busquedas (estadisticas s) + 1\<rparr>\<rparr>)
      | Some e \<Rightarrow>
          if es_valida now e \<and> datos e \<noteq> VNone
          then (Inr (datos e), s\<lparr>estadisticas := (estadisticas s)
                    \<lparr>hits_busquedas := hits_busquedas (estadisticas s) + 1\<rparr>\<rparr>)
          else (Inr VNone, s\<lparr>cache_busquedas := AList.delete k (cache_busquedas s),
                    estadisticas := (estadisticas s)
                    \<lparr>misses_busquedas := misses_busquedas (estadisticas s) + 1\<rparr>\<rparr>))"
  by (simp add: obtener_resultado_busqueda_def dict_contains_def dict_getitem_def
        dict_delitem_def obtener_datos_def Let_def split: option.split)

lemma obtener_ids_departamento_eq:
  "obtener_ids_departamento now k s =
     (case map_of (cache_ids_departamento s) k of
        None \<Rightarrow> (Inr VNone, s)
      | Some e \<Rightarrow>
          if es_valida now e \<and> datos e \<noteq> VNone then (Inr (datos e), s)
          else (Inr VNone,
                s\<lparr>cache_ids_departamento := AList.delete k (cache_ids_departamento s)\<rparr>))"
  by (simp add: obtener_ids_departamento_def dict_contains_def dict_getitem_def
        dict_delitem_def obtener_datos_def Let_def split: option.split)

lemma obtener_departamentos_eq:
  "obtener_departamentos now s =
     (case cache_departamentos s of
        None \<Rightarrow> (Inr VNone, s\<lparr>estadisticas := (estadisticas s)
                    \<lparr>misses_departamentos := misses_departamentos (estadisticas s) + 1\<rparr>\<rparr>)
      | Some e \<Rightarrow>
          if es_valida now e \<and> datos e \<noteq> VNone
          then (Inr (datos e), s\<lparr>estadisticas := (estadisticas s)
                    \<lparr>hits_departamentos := hits_departamentos (estadisticas s) + 1\<rparr>\<rparr>)
          else (Inr VNone, s\<lparr>cache_departamentos := None,
                    estadisticas := (estadisticas s)
                    \<lparr>misses_departamentos := misses_departamentos (estadisticas s) + 1\<rparr>\<rparr>))"
  by (simp add: obtener_departamentos_def obtener_datos_def Let_def split: option.split)

lemma dict_ok_setitem: "dict_ok d \<Longrightarrow> dict_ok (dict_setitem d k v)"
  by (simp add: dict_ok_def dict_setitem_def distinct_update)

lemma map_of_setitem: "map_of (dict_setitem d k v) = (map_of d)(k \<mapsto> v)"
  by (simp add: dict_setitem_def update_conv')

lemma map_of_entradas_validas:
  "map_of d k = Some e \<Longrightarrow> es_valida now e \<Longrightarrow> map_of (entradas_validas now d) k = Some e"
  unfolding entradas_validas_def by (rule map_of_filter_in) simp_all

lemma es_valida_nueva: "0 < tv \<Longrightarrow> es_valida now (EntradaCache now d tv)"
  by (simp add: es_valida_def EntradaCache_def)

lemma almacenar_obra_ok:
  assumes "claves_ok s"
  shows "almacenar_obra now (VObra w) s =
     (let s0 = s\<lparr>cache_obras := dict_setitem (cache_obras s) (id_obra w)
                  (EntradaCache now (VObra w) TIEMPO_VIDA_OBRAS)\<rparr> in
      if total_entradas s0 > 1000
      then (Inr (), (almacen_barrido now s0)\<lparr>estadisticas := (estadisticas s)
              \<lparr>limpiezas_automaticas := limpiezas_automaticas (estadisticas s) + 1\<rparr>\<rparr>)
      else (Inr (), s0))"
proof -
  have "claves_ok (s\<lparr>cache_obras := dict_setitem (cache_obras s) (id_obra w)
                  (EntradaCache now (VObra w) TIEMPO_VIDA_OBRAS)\<rparr>)"
    using assms by (simp add: claves_ok_def dict_ok_setitem)
  then show ?thesis
    by (simp add: almacenar_obra_def Let_def limpiar_cache_si_necesario_ok)
qed

lemma almacenar_resultado_busqueda_ok:
  assumes "claves_ok s"
  shows "almacenar_resultado_busqueda now k (VLista l) s =
     (let s0 = s\<lparr>cache_busquedas := dict_setitem (cache_busquedas s) k
                  (EntradaCache now (VLista l) TIEMPO_VIDA_BUSQUEDAS)\<rparr> in
      if total_entradas s0 > 1000
      then (Inr (), (almacen_barrido now s0)\<lparr>estadisticas := (estadisticas s)
              \<lparr>limpiezas_automaticas := limpiezas_automaticas (estadisticas s) + 1\<rparr>\<rparr>)
      else (Inr (), s0))"
proof -
  have "claves_ok (s\<lparr>cache_busquedas := dict_setitem (cache_busquedas s) k
                  (EntradaCache now (VLista l) TIEMPO_VIDA_BUSQUEDAS)\<rparr>)"
    using assms by (simp add: claves_ok_def dict_ok_setitem)
  then show ?thesis
    by (simp add: almacenar_resultado_busqueda_def Let_def limpiar_cache_si_necesario_ok)
qed

lemma almacenar_obra_lookup:
  assumes "claves_ok s" and "almacenar_obra now (VObra w) s = (r, s1)"
  shows "r = Inr () \<and> claves_ok s1
         \<and> map_of (cache_obras s1) (id_obra w) = Some (EntradaCache now (VObra w) TIEMPO_VIDA_OBRAS)"
proof -
  let ?e = "EntradaCache now (VObra w) TIEMPO_VIDA_OBRAS"
  let ?s0 = "s\<lparr>cache_obras := dict_setitem (cache_obras s) (id_obra w) ?e\<rparr>"
  have ok0: "claves_ok ?s0" using assms(1) by (simp add: claves_ok_def dict_ok_setitem)
  have m0: "map_of (cache_obras ?s0) (id_obra w) = Some ?e" by (simp add: map_of_setitem)
  have v: "es_valida now ?e" by (rule es_valida_nueva) (simp add: TIEMPO_VIDA_OBRAS_def)
  have mb: "map_of (cache_obras (almacen_barrido now ?s0)) (id_obra w) = Some ?e"
    using map_of_entradas_validas [OF m0 v] by (simp add: almacen_barrido_def)
  have okb: "claves_ok (almacen_barrido now ?s0)" by (rule claves_ok_barrido [OF ok0])
  show ?thesis
  proof (cases "total_entradas ?s0 > 1000")
    case True
    then have "s1 = (almacen_barrido now ?s0)\<lparr>estadisticas := (estadisticas s)
              \<lparr>limpiezas_automaticas := limpiezas_automaticas (estadisticas s) + 1\<rparr>\<rparr>" and "r = Inr ()"
      using assms(2) almacenar_obra_ok [OF assms(1), of now w] by (simp_all add: Let_def)
    then show ?thesis using mb okb by (simp add: claves_ok_def)
  next
    case False
    then have "s1 = ?s0" and "r = Inr ()"
      using assms(2) almacenar_obra_ok [OF assms(1), of now w] by (simp_all add: Let_def)
    then show ?thesis using m0 ok0 by simp
  qed
qed

section \<open>Round trip, entry validity and hit accounting\<close>

lemma dict_getitem_iff: "dict_getitem d k = Inr e \<longleftrightarrow> map_of d k = Some e"
  by (simp add: dict_getitem_def split: option.split)

lemma una_entrada_por_clave:
  "dict_ok d \<Longrightarrow> map_of d k = Some v \<Longrightarrow> length (filter (\<lambda>p. fst p = k) d) = 1"
proof (induction d)
  case Nil
  then show ?case by simp
next
  case (Cons p d)
  show ?case
  proof (cases "fst p = k")
    case True
    then have "k \<notin> fst ` set d" using Cons.prems(1) by (auto simp: dict_ok_def)
    then have "filter (\<lambda>p. fst p = k) d = []" by (auto simp: filter_empty_conv)
    then show ?thesis using True by simp
  next
    case False
    then have "map_of d k = Some v" using Cons.prems(2) by (cases p) auto
    moreover have "dict_ok d" using Cons.prems(1) by (simp add: dict_ok_def)
    ultimately show ?thesis using Cons.IH False by simp
  qed
qed

lemma obtener_obra_recien_almacenada:
  assumes "map_of (cache_obras s1) k = Some (EntradaCache t0 (VObra w) TIEMPO_VIDA_OBRAS)"
    and "t1 - t0 < TIEMPO_VIDA_OBRAS"
  shows "fst (obtener_obra t1 k s1) = Inr (VObra w)"
  using assms by (simp add: obtener_obra_eq es_valida_def EntradaCache_def)

text \<open>
  C1. Round trip of the works region. From a store whose dictionaries have one entry per
  key: storing a work \<open>w\<close> at \<open>t0\<close> succeeds, and reading its id at any \<open>t1\<close> with
  \<open>t1 - t0\<close> below the works time-to-live returns \<open>w\<close>; reading an id that is not in
  the works dictionary returns \<^verbatim>\<open>None\<close>; storing \<open>w\<close> and then \<open>w2\<close> under the same id
  leaves exactly one entry with that key, and reading it within the time-to-live of the
  second store returns \<open>w2\<close>.
\<close>

theorem C1_roundtrip_obras:
  assumes "claves_ok s"
  shows "(\<exists>s1. almacenar_obra t0 (VObra w) s = (Inr (), s1)
            \<and> (\<forall>t1. t1 - t0 < TIEMPO_VIDA_OBRAS
                  \<longrightarrow> fst (obtener_obra t1 (id_obra w) s1) = Inr (VObra w)))
         \<and> (\<forall>k t. \<not> dict_contains (cache_obras s) k \<longrightarrow> fst (obtener_obra t k s) = Inr VNone)
         \<and> (\<forall>w2 t1. id_obra w2 = id_obra w \<longrightarrow>
              (\<exists>s1 s2. almacenar_obra t0 (VObra w) s = (Inr (), s1)
                 \<and> almacenar_obra t1 (VObra w2) s1 = (Inr (), s2)
                 \<and> length (filter (\<lambda>p. fst p = id_obra w) (cache_obras s2)) = 1
                 \<and> (\<forall>t2. t2 - t1 < TIEMPO_VIDA_OBRAS
                       \<longrightarrow> fst (obtener_obra t2 (id_obra w) s2) = Inr (VObra w2))))"
proof -
  obtain r s1 where p1: "almacenar_obra t0 (VObra w) s = (r, s1)"
    by (cases "almacenar_obra t0 (VObra w) s")
  from almacenar_obra_lookup [OF assms p1]
  have r: "r = Inr ()" and ok1: "claves_ok s1"
    and m1: "map_of (cache_obras s1) (id_obra w) = Some (EntradaCache t0 (VObra w) TIEMPO_VIDA_OBRAS)"
    by simp_all
  have a: "\<exists>s1. almacenar_obra t0 (VObra w) s = (Inr (), s1)
            \<and> (\<forall>t1. t1 - t0 < TIEMPO_VIDA_OBRAS
                  \<longrightarrow> fst (obtener_obra t1 (id_obra w) s1) = Inr (VObra w))"
    using p1 r obtener_obra_recien_almacenada [OF m1] by blast
  have b: "\<forall>k t. \<not> dict_contains (cache_obras s) k \<longrightarrow> fst (obtener_obra t k s) = Inr VNone"
    by (simp add: obtener_obra_eq dict_contains_def)
  have c: "\<exists>s1 s2. almacenar_obra t0 (VObra w) s = (Inr (), s1)
                 \<and> almacenar_obra t1 (VObra w2) s1 = (Inr (), s2)
                 \<and> length (filter (\<lambda>p. fst p = id_obra w) (cache_obras s2)) = 1
                 \<and> (\<forall>t2. t2 - t1 < TIEMPO_VIDA_OBRAS
                       \<longrightarrow> fst (obtener_obra t2 (id_obra w) s2) = Inr (VObra w2))"
    if same: "id_obra w2 = id_obra w" for w2 t1
  proof -
    obtain r2 s2 where p2: "almacenar_obra t1 (VObra w2) s1 = (r2, s2)"
      by (cases "almacenar_obra t1 (VObra w2) s1")
    from almacenar_obra_lookup [OF ok1 p2] same
    have r2: "r2 = Inr ()" and ok2: "claves_ok s2"
      and m2: "map_of (cache_obras s2) (id_obra w) = Some (EntradaCache t1 (VObra w2) TIEMPO_VIDA_OBRAS)"
      by simp_all
    have "dict_ok (cache_obras s2)" using ok2 by (simp add: claves_ok_def)
    then have "length (filter (\<lambda>p. fst p = id_obra w) (cache_obras s2)) = 1"
      using m2 by (rule una_entrada_por_clave)
    then show ?thesis
      using p1 r p2 r2 obtener_obra_recien_almacenada [OF m2] by blast
  qed
  from a b c show ?thesis by blast
qed

text \<open>
  C2. An entry created at \<open>t0\<close> with value \<open>v\<close> and time-to-live \<open>T\<close> is valid at \<open>now\<close>
  exactly when \<open>now - t0 < T\<close>; \<open>obtener_datos\<close> yields \<open>v\<close> when it is valid and
  \<^verbatim>\<open>None\<close> otherwise. Both are functions of the instant and the entry alone: they return
  no entry and no store, and the scan that calls \<open>obtener_datos\<close> on every works entry
  leaves the store as it was.
\<close>

theorem C2_entrada_cache_validez:
  "(es_valida now (EntradaCache t0 v T) \<longleftrightarrow> now - t0 < T)
   \<and> obtener_datos now (EntradaCache t0 v T) = (if now - t0 < T then v else VNone)
   \<and> (es_valida now e \<longleftrightarrow> now - timestamp e < tiempo_vida e)
   \<and> obtener_datos now e = (if es_valida now e then datos e else VNone)
   \<and> snd (buscar_obras_por_criterio now criterio s) = s"
  by (simp add: es_valida_def obtener_datos_def EntradaCache_def buscar_obras_por_criterio_def)

lemma tipos_ok_obra_no_None:
  "tipos_ok s \<Longrightarrow> map_of (cache_obras s) k = Some e \<Longrightarrow> datos e \<noteq> VNone"
proof -
  assume t: "tipos_ok s" and m: "map_of (cache_obras s) k = Some e"
  from m have "(k, e) \<in> set (cache_obras s)" by (rule map_of_SomeD)
  with t have "es_ObraArte (datos e)" by (force simp: tipos_ok_def list_all_iff)
  then show ?thesis by (cases "datos e") simp_all
qed

text \<open>
  C3. Hit and miss accounting of \<open>obtener_obra\<close>, in a store whose works entries hold
  works. A valid entry under the id: the work is returned and only \<open>hits_obras\<close> changes,
  by one. No entry: \<^verbatim>\<open>None\<close> is returned and only \<open>misses_obras\<close> changes, by one. An
  expired entry: \<^verbatim>\<open>None\<close> is returned, \<open>misses_obras\<close> grows by one and the entry is
  deleted from the works dictionary in the same call.
\<close>

theorem C3_obtener_obra_contabilidad:
  assumes "tipos_ok s"
  shows "(\<forall>e. dict_getitem (cache_obras s) k = Inr e \<and> es_valida now e \<longrightarrow>
            obtener_obra now k s =
              (Inr (datos e), s\<lparr>estadisticas := (estadisticas s)
                 \<lparr>hits_obras := hits_obras (estadisticas s) + 1\<rparr>\<rparr>))
         \<and> (\<not> dict_contains (cache_obras s) k \<longrightarrow>
            obtener_obra now k s =
              (Inr VNone, s\<lparr>estadisticas := (estadisticas s)
                 \<lparr>misses_obras := misses_obras (estadisticas s) + 1\<rparr>\<rparr>))
         \<and> (\<forall>e. dict_getitem (cache_obras s) k = Inr e \<and> \<not> es_valida now e \<longrightarrow>
            obtener_obra now k s =
              (Inr VNone, s\<lparr>cache_obras := AList.delete k (cache_obras s),
                 estadisticas := (estadisticas s)
                 \<lparr>misses_obras := misses_obras (estadisticas s) + 1\<rparr>\<rparr>)
            \<and> \<not> dict_contains (AList.delete k (cache_obras s)) k)"
proof -
  have "\<not> dict_contains (AList.delete k (cache_obras s)) k"
    by (simp add: dict_contains_def delete_conv')
  then show ?thesis
    using tipos_ok_obra_no_None [OF assms, of k]
    by (simp add: obtener_obra_eq dict_getitem_iff dict_contains_def)
qed

section \<open>The round trip and the accounting on concrete stores\<close>

theorem C1_roundtrip_obras_witness:
  "claves_ok almacen_inicial
   \<and> (\<exists>s1. almacenar_obra 0 (VObra (obra_ejemplo 123 ''The Starry Night'')) almacen_inicial
              = (Inr (), s1)
          \<and> fst (obtener_obra 599 123 s1) = Inr (VObra (obra_ejemplo 123 ''The Starry Night'')))
   \<and> \<not> dict_contains (cache_obras almacen_inicial) 999
   \<and> fst (obtener_obra 0 999 almacen_inicial) = Inr VNone
   \<and> (\<exists>s1 s2. almacenar_obra 0 (VObra (obra_ejemplo 123 ''The Starry Night'')) almacen_inicial
              = (Inr (), s1)
          \<and> almacenar_obra 10 (VObra (obra_ejemplo 123 ''Irises'')) s1 = (Inr (), s2)
          \<and> length (filter (\<lambda>p. fst p = 123) (cache_obras s2)) = 1
          \<and> fst (obtener_obra 600 123 s2) = Inr (VObra (obra_ejemplo 123 ''Irises'')))"
proof -
  have h: "claves_ok almacen_inicial"
    by (simp add: claves_ok_def dict_ok_def almacen_inicial_def)
  have nc: "\<not> dict_contains (cache_obras almacen_inicial) 999"
    by (simp add: dict_contains_def almacen_inicial_def)
  have i: "id_obra (obra_ejemplo 123 t) = 123" for t
    by (simp add: obra_ejemplo_def)
  note t = C1_roundtrip_obras [OF h, of 0 "obra_ejemplo 123 ''The Starry Night''"]
  from t obtain s1 where
    a: "almacenar_obra 0 (VObra (obra_ejemplo 123 ''The Starry Night'')) almacen_inicial = (Inr (), s1)"
    and a': "\<forall>t1. t1 - 0 < TIEMPO_VIDA_OBRAS \<longrightarrow>
          fst (obtener_obra t1 (id_obra (obra_ejemplo 123 ''The Starry Night'')) s1)
            = Inr (VObra (obra_ejemplo 123 ''The Starry Night''))"
    by blast
  from a' have a'': "fst (obtener_obra 599 123 s1) = Inr (VObra (obra_ejemplo 123 ''The Starry Night''))"
    by (simp add: TIEMPO_VIDA_OBRAS_def i)
  from t nc have b: "fst (obtener_obra 0 999 almacen_inicial) = Inr VNone" by blast
  from t have "id_obra (obra_ejemplo 123 ''Irises'') = id_obra (obra_ejemplo 123 ''The Starry Night'')
      \<longrightarrow> (\<exists>s1 s2. almacenar_obra 0 (VObra (obra_ejemplo 123 ''The Starry Night'')) almacen_inicial
              = (Inr (), s1)
          \<and> almacenar_obra 10 (VObra (obra_ejemplo 123 ''Irises'')) s1 = (Inr (), s2)
          \<and> length (filter (\<lambda>p. fst p = id_obra (obra_ejemplo 123 ''The Starry Night'')) (cache_obras s2)) = 1
          \<and> (\<forall>t2. t2 - 10 < TIEMPO_VIDA_OBRAS \<longrightarrow>
               fst (obtener_obra t2 (id_obra (obra_ejemplo 123 ''The Starry Night'')) s2)
                 = Inr (VObra (obra_ejemplo 123 ''Irises''))))"
    by blast
  then obtain s1' s2 where
    c1: "almacenar_obra 0 (VObra (obra_ejemplo 123 ''The Starry Night'')) almacen_inicial = (Inr (), s1')"
    and c2: "almacenar_obra 10 (VObra (obra_ejemplo 123 ''Irises'')) s1' = (Inr (), s2)"
    and c3: "length (filter (\<lambda>p. fst p = 123) (cache_obras s2)) = 1"
    and c4: "\<forall>t2. t2 - 10 < TIEMPO_VIDA_OBRAS \<longrightarrow>
               fst (obtener_obra t2 123 s2) = Inr (VObra (obra_ejemplo 123 ''Irises''))"
    unfolding i by blast
  from c4 have c5: "fst (obtener_obra 600 123 s2) = Inr (VObra (obra_ejemplo 123 ''Irises''))"
    by (simp add: TIEMPO_VIDA_OBRAS_def)
  show ?thesis using h a a'' nc b c1 c2 c3 c5 by blast
qed

theorem C3_obtener_obra_contabilidad_witness:
  "tipos_ok almacen_dos_obras
   \<and> dict_getitem (cache_obras almacen_dos_obras) 2
       = Inr (EntradaCache 0 (VObra (obra_ejemplo 2 ''Obra 2'')) TIEMPO_VIDA_OBRAS)
   \<and> es_valida (1 / 5) (EntradaCache 0 (VObra (obra_ejemplo 2 ''Obra 2'')) TIEMPO_VIDA_OBRAS)
   \<and> obtener_obra (1 / 5) 2 almacen_dos_obras =
       (Inr (VObra (obra_ejemplo 2 ''Obra 2'')),
        almacen_dos_obras\<lparr>estadisticas := (estadisticas almacen_dos_obras)\<lparr>hits_obras := 1\<rparr>\<rparr>)
   \<and> \<not> dict_contains (cache_obras almacen_dos_obras) 999
   \<and> obtener_obra (1 / 5) 999 almacen_dos_obras =
       (Inr VNone,
        almacen_dos_obras\<lparr>estadisticas := (estadisticas almacen_dos_obras)\<lparr>misses_obras := 1\<rparr>\<rparr>)
   \<and> dict_getitem (cache_obras almacen_dos_obras) 1
       = Inr (EntradaCache 0 (VObra (obra_ejemplo 1 ''Obra 1'')) (1 / 10))
   \<and> \<not> es_valida (1 / 5) (EntradaCache 0 (VObra (obra_ejemplo 1 ''Obra 1'')) (1 / 10))
   \<and> obtener_obra (1 / 5) 1 almacen_dos_obras =
       (Inr VNone,
        almacen_dos_obras\<lparr>cache_obras :=
           [(2, EntradaCache 0 (VObra (obra_ejemplo 2 ''Obra 2'')) TIEMPO_VIDA_OBRAS)],
          estadisticas := (estadisticas almacen_dos_obras)\<lparr>misses_obras := 1\<rparr>\<rparr>)"
proof -
  have h: "tipos_ok almacen_dos_obras"
    by (simp add: tipos_ok_def almacen_dos_obras_def almacen_inicial_def EntradaCache_def)
  have g2: "dict_getitem (cache_obras almacen_dos_obras) 2
       = Inr (EntradaCache 0 (VObra (obra_ejemplo 2 ''Obra 2'')) TIEMPO_VIDA_OBRAS)"
    and g1: "dict_getitem (cache_obras almacen_dos_obras) 1
       = Inr (EntradaCache 0 (VObra (obra_ejemplo 1 ''Obra 1'')) (1 / 10))"
    and nc: "\<not> dict_contains (cache_obras almacen_dos_obras) 999"
    by (simp_all add: dict_getitem_def dict_contains_def almacen_dos_obras_def)
  have v2: "es_valida (1 / 5) (EntradaCache 0 (VObra (obra_ejemplo 2 ''Obra 2'')) TIEMPO_VIDA_OBRAS)"
    and v1: "\<not> es_valida (1 / 5) (EntradaCache 0 (VObra (obra_ejemplo 1 ''Obra 1'')) (1 / 10))"
    by (simp_all add: es_valida_def EntradaCache_def TIEMPO_VIDA_OBRAS_def)
  have st: "hits_obras (estadisticas almacen_dos_obras) = 0"
    "misses_obras (estadisticas almacen_dos_obras) = 0"
    "AList.delete 1 (cache_obras almacen_dos_obras)
       = [(2, EntradaCache 0 (VObra (obra_ejemplo 2 ''Obra 2'')) TIEMPO_VIDA_OBRAS)]"
    by (simp_all add: almacen_dos_obras_def almacen_inicial_def AList.delete_eq)
  have d: "datos (EntradaCache 0 v T) = v" for v T by (simp add: EntradaCache_def)
  show ?thesis
    using h g2 g1 nc v2 v1
      C3_obtener_obra_contabilidad [OF h, of 2 "1 / 5"]
      C3_obtener_obra_contabilidad [OF h, of 999 "1 / 5"]
      C3_obtener_obra_contabilidad [OF h, of 1 "1 / 5"]
    by (simp add: st d)
qed

section \<open>Automatic cleanup and the memory estimate\<close>

lemma claves_ok_mil_obras: "claves_ok almacen_mil_obras"
  by (simp add: claves_ok_def dict_ok_def almacen_mil_obras_def almacen_inicial_def
        comp_def distinct_map)

lemma entradas_validas_mil_obras:
  "entradas_validas 1000 (cache_obras almacen_mil_obras) = []"
  by (simp add: entradas_validas_def almacen_mil_obras_def filter_map comp_def es_valida_def
        EntradaCache_def TIEMPO_VIDA_OBRAS_def)

text \<open>
  The automatic cleanup as \<open>almacenar_obra\<close> and \<open>almacenar_resultado_busqueda\<close> do it:
  with more than 1000 entries after the insertion the sweep runs and the counter grows by
  one, otherwise the inserted store is returned as it is.
\<close>

lemma limpieza_automatica_obras:
  assumes "claves_ok s"
    and "s0 = s\<lparr>cache_obras := dict_setitem (cache_obras s) (id_obra w)
                  (EntradaCache now (VObra w) TIEMPO_VIDA_OBRAS)\<rparr>"
  shows "(total_entradas s0 > 1000 \<longrightarrow>
            almacenar_obra now (VObra w) s =
              (Inr (), (almacen_barrido now s0)\<lparr>estadisticas := (estadisticas s)
                 \<lparr>limpiezas_automaticas := limpiezas_automaticas (estadisticas s) + 1\<rparr>\<rparr>))
         \<and> (total_entradas s0 \<le> 1000 \<longrightarrow> almacenar_obra now (VObra w) s = (Inr (), s0))"
  using almacenar_obra_ok [OF assms(1), of now w] assms(2) by (simp add: Let_def)

lemma limpieza_automatica_busquedas:
  assumes "claves_ok s"
    and "s0 = s\<lparr>cache_busquedas := dict_setitem (cache_busquedas s) k
                  (EntradaCache now (VLista l) TIEMPO_VIDA_BUSQUEDAS)\<rparr>"
  shows "(total_entradas s0 > 1000 \<longrightarrow>
            almacenar_resultado_busqueda now k (VLista l) s =
              (Inr (), (almacen_barrido now s0)\<lparr>estadisticas := (estadisticas s)
                 \<lparr>limpiezas_automaticas := limpiezas_automaticas (estadisticas s) + 1\<rparr>\<rparr>))
         \<and> (total_entradas s0 \<le> 1000 \<longrightarrow>
            almacenar_resultado_busqueda now k (VLista l) s = (Inr (), s0))"
  using almacenar_resultado_busqueda_ok [OF assms(1), of now k l] assms(2) by (simp add: Let_def)

lemma almacenar_ids_departamento_eq:
  "almacenar_ids_departamento now k (VLista l) s =
     (Inr (), s\<lparr>cache_ids_departamento := dict_setitem (cache_ids_departamento s) k
                  (EntradaCache now (VLista l) TIEMPO_VIDA_LISTAS_IDS)\<rparr>)"
  by (simp add: almacenar_ids_departamento_def)

text \<open>
  C4. The automatic cleanup policy fails for \<open>almacenar_ids_departamento\<close>. The store holds
  1000 works stored at instant 0. At instant 1000 all of them are expired; inserting one
  department id list brings the combined count to 1001, yet the call returns with the 1000
  expired works still in the works dictionary and \<open>limpiezas_automaticas\<close> still 0. The
  same insertion through \<open>almacenar_resultado_busqueda\<close> sweeps the works away and counts
  one cleanup.
\<close>

theorem C4_ids_departamento_sin_limpieza:
  "fst (almacenar_ids_departamento 1000 1 (VLista []) almacen_mil_obras) = Inr ()
   \<and> total_entradas (snd (almacenar_ids_departamento 1000 1 (VLista []) almacen_mil_obras)) = 1001
   \<and> limpiezas_automaticas (estadisticas almacen_mil_obras) = 0
   \<and> limpiezas_automaticas
        (estadisticas (snd (almacenar_ids_departamento 1000 1 (VLista []) almacen_mil_obras))) = 0
   \<and> dict_len (cache_obras
        (snd (almacenar_ids_departamento 1000 1 (VLista []) almacen_mil_obras))) = 1000
   \<and> entradas_validas 1000 (cache_obras
        (snd (almacenar_ids_departamento 1000 1 (VLista []) almacen_mil_obras))) = []
   \<and> limpiezas_automaticas
        (estadisticas (snd (almacenar_resultado_busqueda 1000 ''q'' (VLista []) almacen_mil_obras))) = 1
   \<and> cache_obras (snd (almacenar_resultado_busqueda 1000 ''q'' (VLista []) almacen_mil_obras)) = []"
proof -
  have len: "length (cache_obras almacen_mil_obras) = 1000"
    by (simp add: almacen_mil_obras_def)
  have otros: "cache_busquedas almacen_mil_obras = []"
    "cache_ids_departamento almacen_mil_obras = []"
    "limpiezas_automaticas (estadisticas almacen_mil_obras) = 0"
    by (simp_all add: almacen_mil_obras_def almacen_inicial_def)
  have ids: "almacenar_ids_departamento 1000 1 (VLista []) almacen_mil_obras =
     (Inr (), almacen_mil_obras\<lparr>cache_ids_departamento :=
        [(1, EntradaCache 1000 (VLista []) TIEMPO_VIDA_LISTAS_IDS)]\<rparr>)"
    by (simp add: almacenar_ids_departamento_eq otros dict_setitem_def)
  have tot: "total_entradas (almacen_mil_obras\<lparr>cache_busquedas :=
       dict_setitem (cache_busquedas almacen_mil_obras) ''q''
         (EntradaCache 1000 (VLista []) TIEMPO_VIDA_BUSQUEDAS)\<rparr>) = 1001"
    by (simp add: total_entradas_def len otros dict_setitem_def dict_len_def)
  have busq: "almacenar_resultado_busqueda 1000 ''q'' (VLista []) almacen_mil_obras =
     (Inr (), (almacen_barrido 1000 (almacen_mil_obras\<lparr>cache_busquedas :=
         dict_setitem (cache_busquedas almacen_mil_obras) ''q''
           (EntradaCache 1000 (VLista []) TIEMPO_VIDA_BUSQUEDAS)\<rparr>))
        \<lparr>estadisticas := (estadisticas almacen_mil_obras)
           \<lparr>limpiezas_automaticas := limpiezas_automaticas (estadisticas almacen_mil_obras) + 1\<rparr>\<rparr>)"
    using limpieza_automatica_busquedas [OF claves_ok_mil_obras refl,
        where now = 1000 and k = "''q''" and l = "[]"] tot
    by simp
  show ?thesis
    unfolding ids busq
    by (simp add: total_entradas_def len otros entradas_validas_mil_obras almacen_barrido_def
          dict_len_def)
qed

lemma py_int_mitad:
  assumes "0 \<le> a" and "0 \<le> b"
  shows "py_int (real_of_int a + real_of_int b / 2) = a + b div 2"
proof -
  have "0 \<le> real_of_int a + real_of_int b / 2" using assms by simp
  moreover have "\<lfloor>real_of_int a + real_of_int b / 2\<rfloor> = a + \<lfloor>real_of_int b / 2\<rfloor>"
    by (simp add: int_add_floor [symmetric])
  moreover have "\<lfloor>real_of_int b / 2\<rfloor> = b div 2"
    using floor_divide_of_int_eq [of b 2, where ?'a = real] by simp
  ultimately show ?thesis by (simp add: py_int_def)
qed

lemma estimar_uso_memoria_eq:
  "estimar_uso_memoria s =
     2 * dict_len (cache_obras s)
     + (case cache_departamentos s of Some _ \<Rightarrow> 5 | None \<Rightarrow> 0)
     + dict_len (cache_busquedas s) div 2
     + dict_len (cache_ids_departamento s)"
proof -
  let ?o = "dict_len (cache_obras s)" and ?b = "dict_len (cache_busquedas s)"
  let ?i = "dict_len (cache_ids_departamento s)"
  let ?d = "(case cache_departamentos s of Some _ \<Rightarrow> 5 | None \<Rightarrow> (0::int))"
  have nn: "0 \<le> 2 * ?o + ?d + ?i" "0 \<le> ?b"
    by (simp_all add: dict_len_def split: option.split)
  have "estimar_uso_memoria s = py_int (real_of_int (2 * ?o + ?d + ?i) + real_of_int ?b / 2)"
    unfolding estimar_uso_memoria_def Let_def
    by (rule arg_cong [where f = py_int]) (simp split: option.split)
  also have "\<dots> = (2 * ?o + ?d + ?i) + ?b div 2"
    by (rule py_int_mitad [OF nn])
  finally show ?thesis by simp
qed


lemma hit_ratio_eq:
  "hit_ratio h t = Inr (if t > 0 then real_of_int h / real_of_int t else 0)"
  by (simp add: hit_ratio_def py_truediv_def)

lemma obtener_estadisticas_cache_eq:
  "obtener_estadisticas_cache s =
     (Inr (estadisticas.extend (estadisticas s)
        (estadisticas_cache.fields
           (dict_len (cache_obras s))
           (dict_len (cache_busquedas s))
           (case cache_departamentos s of Some _ \<Rightarrow> 1 | None \<Rightarrow> 0)
           (dict_len (cache_ids_departamento s))
           (estimar_uso_memoria s)
           (if hits_obras (estadisticas s) + misses_obras (estadisticas s) > 0
            then real_of_int (hits_obras (estadisticas s))
                   / real_of_int (hits_obras (estadisticas s) + misses_obras (estadisticas s))
            else 0)
           (if hits_departamentos (estadisticas s) + misses_departamentos (estadisticas s) > 0
            then real_of_int (hits_departamentos (estadisticas s))
                   / real_of_int (hits_departamentos (estadisticas s)
                       + misses_departamentos (estadisticas s))
            else 0)
           (if hits_busquedas (estadisticas s) + misses_busquedas (estadisticas s) > 0
            then real_of_int (hits_busquedas (estadisticas s))
                   / real_of_int (hits_busquedas (estadisticas s) + misses_busquedas (estadisticas s))
            else 0))), s)"
  unfolding obtener_estadisticas_cache_def Let_def hit_ratio_eq by simp

lemma memoria_estimada_kb_reportada:
  "\<exists>r. obtener_estadisticas_cache s = (Inr r, s) \<and> memoria_estimada_kb r = estimar_uso_memoria s"
  unfolding obtener_estadisticas_cache_eq
  by (simp add: estadisticas.defs estadisticas_cache.defs)

text \<open>
  C5 as stated fails: with only the departments slot occupied the figure reported by
  \<open>obtener_estadisticas_cache\<close> is 5, while the heuristic of the claim gives 0.1.
\<close>

theorem C5_memoria_counterexample:
  "map_sum id memoria_estimada_kb (fst (obtener_estadisticas_cache almacen_solo_departamentos))
     = Inr 5
   \<and> memoria_segun_spec almacen_solo_departamentos = 1 / 10"
proof -
  have "estimar_uso_memoria almacen_solo_departamentos = 5"
    by (simp add: estimar_uso_memoria_eq almacen_solo_departamentos_def almacen_inicial_def
          dict_len_def)
  moreover have "memoria_segun_spec almacen_solo_departamentos = 1 / 10"
    by (simp add: memoria_segun_spec_def almacen_solo_departamentos_def almacen_inicial_def
          dict_len_def)
  ultimately show ?thesis
    using memoria_estimada_kb_reportada [of almacen_solo_departamentos] by auto
qed

text \<open>
  C5, amended. The figure \<open>memoria_estimada_kb\<close> reported by \<open>obtener_estadisticas_cache\<close>
  is the integer part of: 2 per works entry, plus 5 for the departments slot when it is
  occupied, plus 0.5 per search-results entry, plus 1 per department-id-list entry. In
  integers: twice the works, 5 for the slot, half the searches rounded down, and the
  id lists.
\<close>

theorem C5_memoria_estimada:
  "\<exists>r. obtener_estadisticas_cache s = (Inr r, s)
     \<and> memoria_estimada_kb r =
         \<lfloor>2 * real_of_int (dict_len (cache_obras s))
          + (case cache_departamentos s of Some _ \<Rightarrow> 5 | None \<Rightarrow> 0)
          + (1 / 2) * real_of_int (dict_len (cache_busquedas s))
          + 1 * real_of_int (dict_len (cache_ids_departamento s))\<rfloor>
     \<and> memoria_estimada_kb r =
         2 * dict_len (cache_obras s)
         + (case cache_departamentos s of Some _ \<Rightarrow> 5 | None \<Rightarrow> 0)
         + dict_len (cache_busquedas s) div 2
         + dict_len (cache_ids_departamento s)"
proof -
  let ?o = "dict_len (cache_obras s)" and ?b = "dict_len (cache_busquedas s)"
  let ?i = "dict_len (cache_ids_departamento s)"
  let ?d = "(case cache_departamentos s of Some _ \<Rightarrow> 5 | None \<Rightarrow> (0::int))"
  have nn: "0 \<le> 2 * ?o + ?d + ?i" "0 \<le> ?b"
    by (simp_all add: dict_len_def split: option.split)
  have "2 * real_of_int ?o + (case cache_departamentos s of Some _ \<Rightarrow> 5 | None \<Rightarrow> 0)
          + (1 / 2) * real_of_int ?b + 1 * real_of_int ?i
        = real_of_int (2 * ?o + ?d + ?i) + real_of_int ?b / 2"
    by (simp split: option.split)
  moreover have "\<lfloor>real_of_int (2 * ?o + ?d + ?i) + real_of_int ?b / 2\<rfloor>
        = (2 * ?o + ?d + ?i) + ?b div 2"
    using py_int_mitad [OF nn] nn by (simp add: py_int_def)
  ultimately have "\<lfloor>2 * real_of_int ?o + (case cache_departamentos s of Some _ \<Rightarrow> 5 | None \<Rightarrow> 0)
          + (1 / 2) * real_of_int ?b + 1 * real_of_int ?i\<rfloor> = estimar_uso_memoria s"
    by (simp add: estimar_uso_memoria_eq)
  then show ?thesis
    using memoria_estimada_kb_reportada [of s] estimar_uso_memoria_eq [of s] by auto
qed

section \<open>Failure semantics and invalidation\<close>

lemma limpiar_cache_manual_ok:
  assumes "claves_ok s"
  shows "limpiar_cache_manual now s =
     (Inr \<lparr>obras_eliminadas =
              dict_len (cache_obras s) - dict_len (entradas_validas now (cache_obras s)),
            busquedas_eliminadas =
              dict_len (cache_busquedas s) - dict_len (entradas_validas now (cache_busquedas s)),
            ids_departamentos_eliminados =
              dict_len (cache_ids_departamento s)
                - dict_len (entradas_validas now (cache_ids_departamento s)),
            departamentos_eliminados =
              contar_departamentos s - contar_departamentos (almacen_barrido now s)\<rparr>,
      almacen_barrido now s)"
  unfolding limpiar_cache_manual_def limpiar_entradas_expiradas_ok [OF assms]
  by (simp add: almacen_barrido_def)

lemma almacenar_obra_no_obra:
  "\<not> es_ObraArte v \<Longrightarrow> almacenar_obra now v s
     = (Inl (ValueError ''El parametro debe ser una instancia de ObraArte''), s)"
  by (cases v) (simp_all add: almacenar_obra_def)







text \<open>
  C7. Each invalidation empties its own region and leaves the other regions and the
  counters as they were; \<open>invalidar_todo_cache\<close> empties the four regions in its one
  transition and leaves the counters.
\<close>

theorem C7_invalidaciones_independientes:
  "invalidar_cache_obras s = (Inr (), s\<lparr>cache_obras := []\<rparr>)
   \<and> cache_obras (snd (invalidar_cache_obras s)) = []
   \<and> cache_departamentos (snd (invalidar_cache_obras s)) = cache_departamentos s
   \<and> cache_busquedas (snd (invalidar_cache_obras s)) = cache_busquedas s
   \<and> cache_ids_departamento (snd (invalidar_cache_obras s)) = cache_ids_departamento s
   \<and> estadisticas (snd (invalidar_cache_obras s)) = estadisticas s
   \<and> cache_departamentos (snd (invalidar_cache_departamentos s)) = None
   \<and> cache_obras (snd (invalidar_cache_departamentos s)) = cache_obras s
   \<and> cache_busquedas (snd (invalidar_cache_departamentos s)) = cache_busquedas s
   \<and> cache_ids_departamento (snd (invalidar_cache_departamentos s)) = cache_ids_departamento s
   \<and> estadisticas (snd (invalidar_cache_departamentos s)) = estadisticas s
   \<and> cache_busquedas (snd (invalidar_cache_busquedas s)) = []
   \<and> cache_obras (snd (invalidar_cache_busquedas s)) = cache_obras s
   \<and> cache_departamentos (snd (invalidar_cache_busquedas s)) = cache_departamentos s
   \<and> cache_ids_departamento (snd (invalidar_cache_busquedas s)) = cache_ids_departamento s
   \<and> estadisticas (snd (invalidar_cache_busquedas s)) = estadisticas s
   \<and> cache_obras (snd (invalidar_todo_cache s)) = []
   \<and> cache_departamentos (snd (invalidar_todo_cache s)) = None
   \<and> cache_busquedas (snd (invalidar_todo_cache s)) = []
   \<and> cache_ids_departamento (snd (invalidar_todo_cache s)) = []
   \<and> estadisticas (snd (invalidar_todo_cache s)) = estadisticas s"
  by (simp add: invalidar_cache_obras_def invalidar_cache_departamentos_def
        invalidar_cache_busquedas_def invalidar_todo_cache_def)

section \<open>Invalid arguments on a concrete store; cached empty lists\<close>

lemma claves_ok_dos_obras: "claves_ok almacen_dos_obras"
  by (simp add: claves_ok_def dict_ok_def almacen_dos_obras_def almacen_inicial_def)


lemma almacenar_resultado_busqueda_lookup:
  assumes "claves_ok s" and "almacenar_resultado_busqueda now k (VLista l) s = (r, s1)"
  shows "r = Inr () \<and> claves_ok s1
         \<and> map_of (cache_busquedas s1) k = Some (EntradaCache now (VLista l) TIEMPO_VIDA_BUSQUEDAS)"
proof -
  let ?e = "EntradaCache now (VLista l) TIEMPO_VIDA_BUSQUEDAS"
  let ?s0 = "s\<lparr>cache_busquedas := dict_setitem (cache_busquedas s) k ?e\<rparr>"
  have ok0: "claves_ok ?s0" using assms(1) by (simp add: claves_ok_def dict_ok_setitem)
  have m0: "map_of (cache_busquedas ?s0) k = Some ?e" by (simp add: map_of_setitem)
  have v: "es_valida now ?e" by (rule es_valida_nueva) (simp add: TIEMPO_VIDA_BUSQUEDAS_def)
  have mb: "map_of (cache_busquedas (almacen_barrido now ?s0)) k = Some ?e"
    using map_of_entradas_validas [OF m0 v] by (simp add: almacen_barrido_def)
  have okb: "claves_ok (almacen_barrido now ?s0)" by (rule claves_ok_barrido [OF ok0])
  show ?thesis
  proof (cases "total_entradas ?s0 > 1000")
    case True
    then have "s1 = (almacen_barrido now ?s0)\<lparr>estadisticas := (estadisticas s)
              \<lparr>limpiezas_automaticas := limpiezas_automaticas (estadisticas s) + 1\<rparr>\<rparr>" and "r = Inr ()"
      using assms(2) almacenar_resultado_busqueda_ok [OF assms(1), of now k l]
      by (simp_all add: Let_def)
    then show ?thesis using mb okb by (simp add: claves_ok_def)
  next
    case False
    then have "s1 = ?s0" and "r = Inr ()"
      using assms(2) almacenar_resultado_busqueda_ok [OF assms(1), of now k l]
      by (simp_all add: Let_def)
    then show ?thesis using m0 ok0 by simp
  qed
qed

lemma tipos_ok_busqueda_no_None:
  "tipos_ok s \<Longrightarrow> map_of (cache_busquedas s) k = Some e \<Longrightarrow> datos e \<noteq> VNone"
proof -
  assume t: "tipos_ok s" and m: "map_of (cache_busquedas s) k = Some e"
  from m have "(k, e) \<in> set (cache_busquedas s)" by (rule map_of_SomeD)
  with t have "es_lista (datos e)" by (force simp: tipos_ok_def list_all_iff)
  then show ?thesis by (cases "datos e") simp_all
qed

lemma tipos_ok_departamentos_no_None:
  "tipos_ok s \<Longrightarrow> cache_departamentos s = Some e \<Longrightarrow> datos e \<noteq> VNone"
proof -
  assume "tipos_ok s" and "cache_departamentos s = Some e"
  then have "es_lista (datos e)" by (simp add: tipos_ok_def)
  then show ?thesis by (cases "datos e") simp_all
qed

text \<open>
  C10. A cached empty list is a hit, and a miss is told apart from it. After
  \<open>almacenar_resultado_busqueda\<close> of the empty list under a key, reading the key within
  the search time-to-live returns the empty list and only \<open>hits_busquedas\<close> changes, by
  one; after \<open>almacenar_departamentos\<close> of the empty list, reading the slot within the
  departments time-to-live returns the empty list and only \<open>hits_departamentos\<close> changes,
  by one. The empty list is not the value \<^verbatim>\<open>None\<close>. A miss does return \<^verbatim>\<open>None\<close>:
  reading the same key or slot once the time-to-live has run out returns \<^verbatim>\<open>None\<close>,
  counts one miss and removes the entry; reading a key that is not stored, or the empty
  slot, returns \<^verbatim>\<open>None\<close> and counts one miss. In a store whose entries hold what the
  store operations put there, \<^verbatim>\<open>None\<close> is returned exactly when there is no valid
  entry.
\<close>

theorem C10_lista_vacia_es_hit:
  assumes "claves_ok s"
  shows "(t1 - t0 < TIEMPO_VIDA_BUSQUEDAS \<longrightarrow>
            (\<exists>s1. almacenar_resultado_busqueda t0 k (VLista []) s = (Inr (), s1)
               \<and> obtener_resultado_busqueda t1 k s1 =
                   (Inr (VLista []), s1\<lparr>estadisticas := (estadisticas s1)
                      \<lparr>hits_busquedas := hits_busquedas (estadisticas s1) + 1\<rparr>\<rparr>)))
         \<and> (t1 - t0 < TIEMPO_VIDA_DEPARTAMENTOS \<longrightarrow>
            (\<exists>s1. almacenar_departamentos t0 (VLista []) s = (Inr (), s1)
               \<and> obtener_departamentos t1 s1 =
                   (Inr (VLista []), s1\<lparr>estadisticas := (estadisticas s1)
                      \<lparr>hits_departamentos := hits_departamentos (estadisticas s1) + 1\<rparr>\<rparr>)))
         \<and> VLista [] \<noteq> VNone
         \<and> (\<not> t1 - t0 < TIEMPO_VIDA_BUSQUEDAS \<longrightarrow>
            (\<exists>s1. almacenar_resultado_busqueda t0 k (VLista []) s = (Inr (), s1)
               \<and> obtener_resultado_busqueda t1 k s1 =
                   (Inr VNone, s1\<lparr>cache_busquedas := AList.delete k (cache_busquedas s1),
                      estadisticas := (estadisticas s1)
                      \<lparr>misses_busquedas := misses_busquedas (estadisticas s1) + 1\<rparr>\<rparr>)))
         \<and> (\<not> dict_contains (cache_busquedas s) k \<longrightarrow>
            obtener_resultado_busqueda t1 k s =
              (Inr VNone, s\<lparr>estadisticas := (estadisticas s)
                 \<lparr>misses_busquedas := misses_busquedas (estadisticas s) + 1\<rparr>\<rparr>))
         \<and> (\<not> t1 - t0 < TIEMPO_VIDA_DEPARTAMENTOS \<longrightarrow>
            (\<exists>s1. almacenar_departamentos t0 (VLista []) s = (Inr (), s1)
               \<and> obtener_departamentos t1 s1 =
                   (Inr VNone, s1\<lparr>cache_departamentos := None,
                      estadisticas := (estadisticas s1)
                      \<lparr>misses_departamentos := misses_departamentos (estadisticas s1) + 1\<rparr>\<rparr>)))
         \<and> (cache_departamentos s = None \<longrightarrow>
            obtener_departamentos t1 s =
              (Inr VNone, s\<lparr>estadisticas := (estadisticas s)
                 \<lparr>misses_departamentos := misses_departamentos (estadisticas s) + 1\<rparr>\<rparr>))
         \<and> (tipos_ok s \<longrightarrow>
              (fst (obtener_resultado_busqueda t1 k s) = Inr VNone
                 \<longleftrightarrow> \<not> (\<exists>e. dict_getitem (cache_busquedas s) k = Inr e \<and> es_valida t1 e)))
         \<and> (tipos_ok s \<longrightarrow>
              (fst (obtener_departamentos t1 s) = Inr VNone
                 \<longleftrightarrow> \<not> (\<exists>e. cache_departamentos s = Some e \<and> es_valida t1 e)))"
proof -
  obtain r s1 where p: "almacenar_resultado_busqueda t0 k (VLista []) s = (r, s1)"
    by (cases "almacenar_resultado_busqueda t0 k (VLista []) s")
  from almacenar_resultado_busqueda_lookup [OF assms p]
  have r: "r = Inr ()"
    and m: "map_of (cache_busquedas s1) k = Some (EntradaCache t0 (VLista []) TIEMPO_VIDA_BUSQUEDAS)"
    by simp_all
  have a: "obtener_resultado_busqueda t1 k s1 =
       (Inr (VLista []), s1\<lparr>estadisticas := (estadisticas s1)
          \<lparr>hits_busquedas := hits_busquedas (estadisticas s1) + 1\<rparr>\<rparr>)"
    if "t1 - t0 < TIEMPO_VIDA_BUSQUEDAS"
    using that m by (simp add: obtener_resultado_busqueda_eq es_valida_def EntradaCache_def)
  have a': "obtener_resultado_busqueda t1 k s1 =
       (Inr VNone, s1\<lparr>cache_busquedas := AList.delete k (cache_busquedas s1),
          estadisticas := (estadisticas s1)
          \<lparr>misses_busquedas := misses_busquedas (estadisticas s1) + 1\<rparr>\<rparr>)"
    if "\<not> t1 - t0 < TIEMPO_VIDA_BUSQUEDAS"
    using that m by (simp add: obtener_resultado_busqueda_eq es_valida_def EntradaCache_def)
  have c1: "t1 - t0 < TIEMPO_VIDA_BUSQUEDAS \<longrightarrow>
            (\<exists>s1. almacenar_resultado_busqueda t0 k (VLista []) s = (Inr (), s1)
               \<and> obtener_resultado_busqueda t1 k s1 =
                   (Inr (VLista []), s1\<lparr>estadisticas := (estadisticas s1)
                      \<lparr>hits_busquedas := hits_busquedas (estadisticas s1) + 1\<rparr>\<rparr>))"
    using a p r by blast
  have c2: "t1 - t0 < TIEMPO_VIDA_DEPARTAMENTOS \<longrightarrow>
            (\<exists>s1. almacenar_departamentos t0 (VLista []) s = (Inr (), s1)
               \<and> obtener_departamentos t1 s1 =
                   (Inr (VLista []), s1\<lparr>estadisticas := (estadisticas s1)
                      \<lparr>hits_departamentos := hits_departamentos (estadisticas s1) + 1\<rparr>\<rparr>))"
    by (simp add: almacenar_departamentos_def obtener_departamentos_eq es_valida_def
          EntradaCache_def)
  have c3: "VLista [] \<noteq> VNone" by simp
  have c4: "\<not> t1 - t0 < TIEMPO_VIDA_BUSQUEDAS \<longrightarrow>
            (\<exists>s1. almacenar_resultado_busqueda t0 k (VLista []) s = (Inr (), s1)
               \<and> obtener_resultado_busqueda t1 k s1 =
                   (Inr VNone, s1\<lparr>cache_busquedas := AList.delete k (cache_busquedas s1),
                      estadisticas := (estadisticas s1)
                      \<lparr>misses_busquedas := misses_busquedas (estadisticas s1) + 1\<rparr>\<rparr>))"
    using a' p r by blast
  have c5: "\<not> dict_contains (cache_busquedas s) k \<longrightarrow>
            obtener_resultado_busqueda t1 k s =
              (Inr VNone, s\<lparr>estadisticas := (estadisticas s)
                 \<lparr>misses_busquedas := misses_busquedas (estadisticas s) + 1\<rparr>\<rparr>)"
    by (simp add: obtener_resultado_busqueda_eq dict_contains_def)
  have c6: "\<not> t1 - t0 < TIEMPO_VIDA_DEPARTAMENTOS \<longrightarrow>
            (\<exists>s1. almacenar_departamentos t0 (VLista []) s = (Inr (), s1)
               \<and> obtener_departamentos t1 s1 =
                   (Inr VNone, s1\<lparr>cache_departamentos := None,
                      estadisticas := (estadisticas s1)
                      \<lparr>misses_departamentos := misses_departamentos (estadisticas s1) + 1\<rparr>\<rparr>))"
    by (simp add: almacenar_departamentos_def obtener_departamentos_eq es_valida_def
          EntradaCache_def)
  have c7: "cache_departamentos s = None \<longrightarrow>
            obtener_departamentos t1 s =
              (Inr VNone, s\<lparr>estadisticas := (estadisticas s)
                 \<lparr>misses_departamentos := misses_departamentos (estadisticas s) + 1\<rparr>\<rparr>)"
    by (simp add: obtener_departamentos_eq)
  have c8: "tipos_ok s \<longrightarrow>
              (fst (obtener_resultado_busqueda t1 k s) = Inr VNone
                 \<longleftrightarrow> \<not> (\<exists>e. dict_getitem (cache_busquedas s) k = Inr e \<and> es_valida t1 e))"
  proof
    assume t: "tipos_ok s"
    show "fst (obtener_resultado_busqueda t1 k s) = Inr VNone
            \<longleftrightarrow> \<not> (\<exists>e. dict_getitem (cache_busquedas s) k = Inr e \<and> es_valida t1 e)"
    proof (cases "map_of (cache_busquedas s) k")
      case None
      then show ?thesis by (simp add: obtener_resultado_busqueda_eq dict_getitem_iff)
    next
      case (Some e)
      with tipos_ok_busqueda_no_None [OF t Some] show ?thesis
        by (simp add: obtener_resultado_busqueda_eq dict_getitem_iff)
    qed
  qed
  have c9: "tipos_ok s \<longrightarrow>
              (fst (obtener_departamentos t1 s) = Inr VNone
                 \<longleftrightarrow> \<not> (\<exists>e. cache_departamentos s = Some e \<and> es_valida t1 e))"
  proof
    assume t: "tipos_ok s"
    show "fst (obtener_departamentos t1 s) = Inr VNone
            \<longleftrightarrow> \<not> (\<exists>e. cache_departamentos s = Some e \<and> es_valida t1 e)"
    proof (cases "cache_departamentos s")
      case None
      then show ?thesis by (simp add: obtener_departamentos_eq)
    next
      case (Some e)
      with tipos_ok_departamentos_no_None [OF t Some] show ?thesis
        by (simp add: obtener_departamentos_eq)
    qed
  qed
  show ?thesis by (intro conjI c1 c2 c3 c4 c5 c6 c7 c8 c9)
qed

theorem C10_lista_vacia_es_hit_witness:
  "claves_ok almacen_inicial
   \<and> (299 - 0 < TIEMPO_VIDA_BUSQUEDAS)
   \<and> (\<exists>s1. almacenar_resultado_busqueda 0 ''nationality:french'' (VLista []) almacen_inicial
               = (Inr (), s1)
         \<and> obtener_resultado_busqueda 299 ''nationality:french'' s1 =
             (Inr (VLista []), s1\<lparr>estadisticas := (estadisticas s1)
                \<lparr>hits_busquedas := hits_busquedas (estadisticas s1) + 1\<rparr>\<rparr>))
   \<and> (299 - 0 < TIEMPO_VIDA_DEPARTAMENTOS)
   \<and> (\<exists>s1. almacenar_departamentos 0 (VLista []) almacen_inicial = (Inr (), s1)
         \<and> obtener_departamentos 299 s1 =
             (Inr (VLista []), s1\<lparr>estadisticas := (estadisticas s1)
                \<lparr>hits_departamentos := hits_departamentos (estadisticas s1) + 1\<rparr>\<rparr>))
   \<and> \<not> (1800 - 0 < TIEMPO_VIDA_BUSQUEDAS)
   \<and> (\<exists>s1. almacenar_resultado_busqueda 0 ''nationality:french'' (VLista []) almacen_inicial
               = (Inr (), s1)
         \<and> obtener_resultado_busqueda 1800 ''nationality:french'' s1 =
             (Inr VNone, s1\<lparr>cache_busquedas :=
                  AList.delete ''nationality:french'' (cache_busquedas s1),
                estadisticas := (estadisticas s1)
                \<lparr>misses_busquedas := misses_busquedas (estadisticas s1) + 1\<rparr>\<rparr>))
   \<and> \<not> (1800 - 0 < TIEMPO_VIDA_DEPARTAMENTOS)
   \<and> (\<exists>s1. almacenar_departamentos 0 (VLista []) almacen_inicial = (Inr (), s1)
         \<and> obtener_departamentos 1800 s1 =
             (Inr VNone, s1\<lparr>cache_departamentos := None,
                estadisticas := (estadisticas s1)
                \<lparr>misses_departamentos := misses_departamentos (estadisticas s1) + 1\<rparr>\<rparr>))
   \<and> \<not> dict_contains (cache_busquedas almacen_inicial) ''nationality:french''
   \<and> obtener_resultado_busqueda 299 ''nationality:french'' almacen_inicial =
        (Inr VNone, almacen_inicial\<lparr>estadisticas := (estadisticas almacen_inicial)
           \<lparr>misses_busquedas := misses_busquedas (estadisticas almacen_inicial) + 1\<rparr>\<rparr>)
   \<and> cache_departamentos almacen_inicial = None
   \<and> obtener_departamentos 299 almacen_inicial =
        (Inr VNone, almacen_inicial\<lparr>estadisticas := (estadisticas almacen_inicial)
           \<lparr>misses_departamentos := misses_departamentos (estadisticas almacen_inicial) + 1\<rparr>\<rparr>)
   \<and> tipos_ok almacen_inicial
   \<and> (fst (obtener_resultado_busqueda 299 ''nationality:french'' almacen_inicial) = Inr VNone
        \<longleftrightarrow> \<not> (\<exists>e. dict_getitem (cache_busquedas almacen_inicial) ''nationality:french'' = Inr e
                  \<and> es_valida 299 e))"
proof -
  have h: "claves_ok almacen_inicial"
    by (simp add: claves_ok_def dict_ok_def almacen_inicial_def)
  have t: "(299::real) - 0 < TIEMPO_VIDA_BUSQUEDAS" "(299::real) - 0 < TIEMPO_VIDA_DEPARTAMENTOS"
    "\<not> ((1800::real) - 0 < TIEMPO_VIDA_BUSQUEDAS)"
    "\<not> ((1800::real) - 0 < TIEMPO_VIDA_DEPARTAMENTOS)"
    by (simp_all add: TIEMPO_VIDA_BUSQUEDAS_def TIEMPO_VIDA_DEPARTAMENTOS_def)
  have i: "\<not> dict_contains (cache_busquedas almacen_inicial) ''nationality:french''"
    "cache_departamentos almacen_inicial = None"
    "tipos_ok almacen_inicial"
    by (simp_all add: dict_contains_def almacen_inicial_def tipos_ok_def)
  note a = C10_lista_vacia_es_hit [OF h, where ?t1.0 = 299 and ?t0.0 = 0
        and k = "''nationality:french''"]
  note b = C10_lista_vacia_es_hit [OF h, where ?t1.0 = 1800 and ?t0.0 = 0
        and k = "''nationality:french''"]
  show ?thesis
    using h t i a b by blast
qed

section \<open>Statistics snapshot\<close>

lemma dict_len_validas_expiradas:
  "dict_len (entradas_validas now d) + dict_len (entradas_expiradas now d) = dict_len d"
proof -
  have "length (filter (\<lambda>p. es_valida now (snd p)) d)
          + length (filter (\<lambda>p. \<not> es_valida now (snd p)) d) = length d"
    by (rule sum_length_filter_compl)
  then show ?thesis
    unfolding dict_len_def entradas_validas_def entradas_expiradas_def split_def by linarith
qed

lemma almacen_un_hit_un_miss_eq:
  "almacen_un_hit_un_miss =
     almacen_inicial\<lparr>cache_obras :=
        [(123, EntradaCache 0 (VObra (obra_ejemplo 123 ''The Starry Night'')) TIEMPO_VIDA_OBRAS)],
      estadisticas := (estadisticas almacen_inicial)\<lparr>hits_obras := 1, misses_obras := 1\<rparr>\<rparr>"
proof -
  have h: "claves_ok almacen_inicial"
    by (simp add: claves_ok_def dict_ok_def almacen_inicial_def)
  have a: "snd (almacenar_obra 0 (VObra (obra_ejemplo 123 ''The Starry Night'')) almacen_inicial)
     = almacen_inicial\<lparr>cache_obras :=
        [(123, EntradaCache 0 (VObra (obra_ejemplo 123 ''The Starry Night'')) TIEMPO_VIDA_OBRAS)]\<rparr>"
    unfolding almacenar_obra_ok [OF h]
    by (simp add: Let_def total_entradas_def dict_len_def dict_setitem_def almacen_inicial_def
          obra_ejemplo_def)
  show ?thesis
    unfolding almacen_un_hit_un_miss_def a
    by (simp add: obtener_obra_eq es_valida_def EntradaCache_def TIEMPO_VIDA_OBRAS_def
          almacen_inicial_def)
qed

text \<open>
  C8 as stated fails for the department-id-lists region: after one hit and one miss of
  \<open>obtener_ids_departamento\<close> the statistics snapshot is the one taken before them, so it
  carries no hit or miss counter (and no ratio) of that region.
\<close>

theorem C8_estadisticas_counterexample:
  "fst (obtener_ids_departamento 1 1 almacen_con_ids) = Inr (VLista [VInt 123])
   \<and> fst (obtener_ids_departamento 1 2 almacen_con_ids) = Inr VNone
   \<and> fst (obtener_estadisticas_cache
        (snd (obtener_ids_departamento 1 2 (snd (obtener_ids_departamento 1 1 almacen_con_ids)))))
     = fst (obtener_estadisticas_cache almacen_con_ids)"
proof -
  have s: "almacen_con_ids = almacen_inicial\<lparr>cache_ids_departamento :=
      [(1, EntradaCache 0 (VLista [VInt 123]) TIEMPO_VIDA_LISTAS_IDS)]\<rparr>"
    by (simp add: almacen_con_ids_def almacenar_ids_departamento_eq dict_setitem_def
          almacen_inicial_def)
  have a: "obtener_ids_departamento 1 1 almacen_con_ids = (Inr (VLista [VInt 123]), almacen_con_ids)"
    unfolding s
    by (simp add: obtener_ids_departamento_eq es_valida_def EntradaCache_def
          TIEMPO_VIDA_LISTAS_IDS_def)
  have b: "obtener_ids_departamento 1 2 almacen_con_ids = (Inr VNone, almacen_con_ids)"
    unfolding s by (simp add: obtener_ids_departamento_eq)
  show ?thesis by (simp add: a b)
qed

text \<open>
  C8, amended. \<open>obtener_estadisticas_cache\<close> returns a snapshot and leaves the store as it
  is. For each of the four regions it reports the number of stored entries, valid and
  expired ones alike (for the departments slot 1 or 0). For the works, departments and
  search regions it reports the hit and miss counters and a hit ratio, which is
  \<open>hits / (hits + misses)\<close> when \<open>hits + misses\<close> is positive and 0 when it is 0; the
  department-id-lists region has no hit or miss counter. With one works hit and one works
  miss counted, \<open>hit_ratio_obras\<close> is 0.5.
\<close>

theorem C8_estadisticas:
  "\<exists>r. obtener_estadisticas_cache s = (Inr r, s)
     \<and> obras_en_cache r = dict_len (cache_obras s)
     \<and> obras_en_cache r = dict_len (entradas_validas now (cache_obras s))
          + dict_len (entradas_expiradas now (cache_obras s))
     \<and> busquedas_en_cache r = dict_len (cache_busquedas s)
     \<and> busquedas_en_cache r = dict_len (entradas_validas now (cache_busquedas s))
          + dict_len (entradas_expiradas now (cache_busquedas s))
     \<and> ids_departamentos_en_cache r = dict_len (cache_ids_departamento s)
     \<and> ids_departamentos_en_cache r = dict_len (entradas_validas now (cache_ids_departamento s))
          + dict_len (entradas_expiradas now (cache_ids_departamento s))
     \<and> departamentos_en_cache r = (case cache_departamentos s of Some _ \<Rightarrow> 1 | None \<Rightarrow> 0)
     \<and> hits_obras r = hits_obras (estadisticas s)
     \<and> misses_obras r = misses_obras (estadisticas s)
     \<and> hits_departamentos r = hits_departamentos (estadisticas s)
     \<and> misses_departamentos r = misses_departamentos (estadisticas s)
     \<and> hits_busquedas r = hits_busquedas (estadisticas s)
     \<and> misses_busquedas r = misses_busquedas (estadisticas s)
     \<and> (hits_obras r + misses_obras r > 0 \<longrightarrow>
          hit_ratio_obras r = real_of_int (hits_obras r) / real_of_int (hits_obras r + misses_obras r))
     \<and> (hits_obras r + misses_obras r = 0 \<longrightarrow> hit_ratio_obras r = 0)
     \<and> (hits_departamentos r + misses_departamentos r > 0 \<longrightarrow>
          hit_ratio_departamentos r = real_of_int (hits_departamentos r)
            / real_of_int (hits_departamentos r + misses_departamentos r))
     \<and> (hits_departamentos r + misses_departamentos r = 0 \<longrightarrow> hit_ratio_departamentos r = 0)
     \<and> (hits_busquedas r + misses_busquedas r > 0 \<longrightarrow>
          hit_ratio_busquedas r = real_of_int (hits_busquedas r)
            / real_of_int (hits_busquedas r + misses_busquedas r))
     \<and> (hits_busquedas r + misses_busquedas r = 0 \<longrightarrow> hit_ratio_busquedas r = 0)
     \<and> (hits_obras (estadisticas s) = 1 \<and> misses_obras (estadisticas s) = 1 \<longrightarrow>
          hit_ratio_obras r = 1 / 2)"
  unfolding obtener_estadisticas_cache_eq
  by (simp add: estadisticas.defs estadisticas_cache.defs dict_len_validas_expiradas)

theorem C8_estadisticas_witness:
  "hits_obras (estadisticas almacen_un_hit_un_miss) = 1
   \<and> misses_obras (estadisticas almacen_un_hit_un_miss) = 1
   \<and> (\<exists>r. obtener_estadisticas_cache almacen_un_hit_un_miss = (Inr r, almacen_un_hit_un_miss)
         \<and> obras_en_cache r = 1 \<and> hits_obras r = 1 \<and> misses_obras r = 1
         \<and> hit_ratio_obras r = 1 / 2
         \<and> hits_departamentos r + misses_departamentos r = 0
         \<and> hit_ratio_departamentos r = 0)"
proof -
  have c: "hits_obras (estadisticas almacen_un_hit_un_miss) = 1"
    "misses_obras (estadisticas almacen_un_hit_un_miss) = 1"
    "hits_departamentos (estadisticas almacen_un_hit_un_miss) = 0"
    "misses_departamentos (estadisticas almacen_un_hit_un_miss) = 0"
    "dict_len (cache_obras almacen_un_hit_un_miss) = 1"
    by (simp_all add: almacen_un_hit_un_miss_eq almacen_inicial_def dict_len_def)
  from C8_estadisticas [of almacen_un_hit_un_miss 2] obtain r where
    "obtener_estadisticas_cache almacen_un_hit_un_miss = (Inr r, almacen_un_hit_un_miss)"
    "obras_en_cache r = dict_len (cache_obras almacen_un_hit_un_miss)"
    "hits_obras r = hits_obras (estadisticas almacen_un_hit_un_miss)"
    "misses_obras r = misses_obras (estadisticas almacen_un_hit_un_miss)"
    "hits_departamentos r = hits_departamentos (estadisticas almacen_un_hit_un_miss)"
    "misses_departamentos r = misses_departamentos (estadisticas almacen_un_hit_un_miss)"
    "hits_departamentos r + misses_departamentos r = 0 \<longrightarrow> hit_ratio_departamentos r = 0"
    "hits_obras (estadisticas almacen_un_hit_un_miss) = 1
       \<and> misses_obras (estadisticas almacen_un_hit_un_miss) = 1 \<longrightarrow> hit_ratio_obras r = 1 / 2"
    by blast
  then show ?thesis using c by auto
qed

section \<open>Manual cleanup\<close>

lemma dict_len_expiradas:
  "dict_len d - dict_len (entradas_validas now d) = dict_len (entradas_expiradas now d)"
  using dict_len_validas_expiradas [of now d] by linarith

lemma contar_departamentos_barrido:
  "contar_departamentos s - contar_departamentos (almacen_barrido now s)
     = (case cache_departamentos s of
          None \<Rightarrow> 0
        | Some e \<Rightarrow> if es_valida now e then 0 else 1)"
  by (simp add: contar_departamentos_def almacen_barrido_def split: option.split)

lemma dict_getitem_entradas_validas:
  "dict_getitem d k = Inr e \<Longrightarrow> es_valida now e \<Longrightarrow>
   dict_getitem (entradas_validas now d) k = Inr e"
  by (simp add: dict_getitem_iff map_of_entradas_validas)

lemma entradas_validas_set:
  "set (entradas_validas now d) = {p \<in> set d. es_valida now (snd p)}"
  unfolding entradas_validas_def split_def by simp

text \<open>
  C9. Manual cleanup, from a store whose dictionaries have one entry per key. The call
  returns a record and leaves the counters alone. Each dictionary afterwards holds, in
  their order, exactly the entries that were valid at the instant of the call, and the
  departments slot is emptied exactly when it held an expired entry. Each count of the
  record is the number of expired entries that region held. An entry that was valid is
  still read under its key, and a valid work is still returned by \<open>obtener_obra\<close>.
\<close>

theorem C9_limpieza_manual:
  assumes "claves_ok s"
  shows "\<exists>r s'. limpiar_cache_manual now s = (Inr r, s')
     \<and> cache_obras s' = entradas_validas now (cache_obras s)
     \<and> cache_busquedas s' = entradas_validas now (cache_busquedas s)
     \<and> cache_ids_departamento s' = entradas_validas now (cache_ids_departamento s)
     \<and> cache_departamentos s' =
          (case cache_departamentos s of
             None \<Rightarrow> None
           | Some e \<Rightarrow> if es_valida now e then Some e else None)
     \<and> estadisticas s' = estadisticas s
     \<and> set (cache_obras s') = {p \<in> set (cache_obras s). es_valida now (snd p)}
     \<and> set (cache_busquedas s') = {p \<in> set (cache_busquedas s). es_valida now (snd p)}
     \<and> set (cache_ids_departamento s')
          = {p \<in> set (cache_ids_departamento s). es_valida now (snd p)}
     \<and> obras_eliminadas r = dict_len (entradas_expiradas now (cache_obras s))
     \<and> busquedas_eliminadas r = dict_len (entradas_expiradas now (cache_busquedas s))
     \<and> ids_departamentos_eliminados r
          = dict_len (entradas_expiradas now (cache_ids_departamento s))
     \<and> departamentos_eliminados r =
          (case cache_departamentos s of
             None \<Rightarrow> 0
           | Some e \<Rightarrow> if es_valida now e then 0 else 1)
     \<and> (\<forall>k e. dict_getitem (cache_obras s) k = Inr e \<and> es_valida now e \<longrightarrow>
           dict_getitem (cache_obras s') k = Inr e)
     \<and> (\<forall>k e. dict_getitem (cache_busquedas s) k = Inr e \<and> es_valida now e \<longrightarrow>
           dict_getitem (cache_busquedas s') k = Inr e)
     \<and> (\<forall>k e. dict_getitem (cache_ids_departamento s) k = Inr e \<and> es_valida now e \<longrightarrow>
           dict_getitem (cache_ids_departamento s') k = Inr e)
     \<and> (\<forall>k e. dict_getitem (cache_obras s) k = Inr e \<and> es_valida now e \<and> datos e \<noteq> VNone
           \<longrightarrow> fst (obtener_obra now k s') = Inr (datos e))"
proof -
  let ?s' = "almacen_barrido now s"
  have regs: "cache_obras ?s' = entradas_validas now (cache_obras s)"
    "cache_busquedas ?s' = entradas_validas now (cache_busquedas s)"
    "cache_ids_departamento ?s' = entradas_validas now (cache_ids_departamento s)"
    "cache_departamentos ?s' =
          (case cache_departamentos s of
             None \<Rightarrow> None
           | Some e \<Rightarrow> if es_valida now e then Some e else None)"
    "estadisticas ?s' = estadisticas s"
    by (simp_all add: almacen_barrido_def)
  have obra: "fst (obtener_obra now k ?s') = Inr (datos e)"
    if "dict_getitem (cache_obras s) k = Inr e" "es_valida now e" "datos e \<noteq> VNone" for k e
  proof -
    have "map_of (cache_obras ?s') k = Some e"
      using dict_getitem_entradas_validas [OF that(1) that(2)]
      by (simp add: regs dict_getitem_iff)
    then show ?thesis using that by (simp add: obtener_obra_eq)
  qed
  show ?thesis
    unfolding limpiar_cache_manual_ok [OF assms]
    apply (intro exI [of _ ?s'] exI conjI)
                     apply (rule refl)
                    apply (simp_all add: regs dict_len_expiradas contar_departamentos_barrido
        entradas_validas_set dict_getitem_entradas_validas obra)
    done
qed

theorem C9_limpieza_manual_witness:
  "claves_ok almacen_dos_obras
   \<and> dict_getitem (cache_obras almacen_dos_obras) 2
       = Inr (EntradaCache 0 (VObra (obra_ejemplo 2 ''Obra 2'')) TIEMPO_VIDA_OBRAS)
   \<and> es_valida (1 / 5) (EntradaCache 0 (VObra (obra_ejemplo 2 ''Obra 2'')) TIEMPO_VIDA_OBRAS)
   \<and> (\<exists>r s'. limpiar_cache_manual (1 / 5) almacen_dos_obras = (Inr r, s')
         \<and> obras_eliminadas r = 1
         \<and> busquedas_eliminadas r = 0
         \<and> departamentos_eliminados r = 0
         \<and> cache_obras s'
              = [(2, EntradaCache 0 (VObra (obra_ejemplo 2 ''Obra 2'')) TIEMPO_VIDA_OBRAS)]
         \<and> fst (obtener_obra (1 / 5) 2 s') = Inr (VObra (obra_ejemplo 2 ''Obra 2'')))"
proof -
  let ?e2 = "EntradaCache 0 (VObra (obra_ejemplo 2 ''Obra 2'')) TIEMPO_VIDA_OBRAS"
  have g2: "dict_getitem (cache_obras almacen_dos_obras) 2 = Inr ?e2"
    by (simp add: dict_getitem_def almacen_dos_obras_def)
  have v2: "es_valida (1 / 5) ?e2"
    by (simp add: es_valida_def EntradaCache_def TIEMPO_VIDA_OBRAS_def)
  have d2: "datos ?e2 = VObra (obra_ejemplo 2 ''Obra 2'')" by (simp add: EntradaCache_def)
  have ev: "entradas_validas (1 / 5) (cache_obras almacen_dos_obras) = [(2, ?e2)]"
    "dict_len (entradas_expiradas (1 / 5) (cache_obras almacen_dos_obras)) = 1"
    "dict_len (entradas_expiradas (1 / 5) (cache_busquedas almacen_dos_obras)) = 0"
    "cache_departamentos almacen_dos_obras = None"
    by (simp_all add: entradas_validas_def entradas_expiradas_def almacen_dos_obras_def
          almacen_inicial_def es_valida_def EntradaCache_def TIEMPO_VIDA_OBRAS_def dict_len_def)
  from C9_limpieza_manual [OF claves_ok_dos_obras, of "1 / 5"] obtain r s' where
    p: "limpiar_cache_manual (1 / 5) almacen_dos_obras = (Inr r, s')"
    and co: "cache_obras s' = entradas_validas (1 / 5) (cache_obras almacen_dos_obras)"
    and oe: "obras_eliminadas r
       = dict_len (entradas_expiradas (1 / 5) (cache_obras almacen_dos_obras))"
    and be: "busquedas_eliminadas r
       = dict_len (entradas_expiradas (1 / 5) (cache_busquedas almacen_dos_obras))"
    and de: "departamentos_eliminados r =
          (case cache_departamentos almacen_dos_obras of
             None \<Rightarrow> 0
           | Some e \<Rightarrow> if es_valida (1 / 5) e then 0 else 1)"
    and ob: "\<forall>k e. dict_getitem (cache_obras almacen_dos_obras) k = Inr e \<and> es_valida (1 / 5) e
         \<and> datos e \<noteq> VNone \<longrightarrow> fst (obtener_obra (1 / 5) k s') = Inr (datos e)"
    by blast
  have "datos ?e2 \<noteq> VNone" by (simp add: d2)
  with ob g2 v2 have "fst (obtener_obra (1 / 5) 2 s') = Inr (datos ?e2)" by blast
  then have o2: "fst (obtener_obra (1 / 5) 2 s') = Inr (VObra (obra_ejemplo 2 ''Obra 2''))"
    by (simp only: d2)
  have r1: "obras_eliminadas r = 1" using oe by (simp only: ev)
  have r2: "busquedas_eliminadas r = 0" using be by (simp only: ev)
  have r3: "departamentos_eliminados r = 0" using de by (simp add: ev)
  have r4: "cache_obras s' = [(2, ?e2)]" using co by (simp only: ev)
  show ?thesis using claves_ok_dos_obras g2 v2 p r1 r2 r3 r4 o2 by blast
qed

section \<open>The invariants hold in every store the operations can reach\<close>

lemma almacen_ok_inicial: "almacen_ok almacen_inicial"
  by (simp add: almacen_ok_def claves_ok_def tipos_ok_def dict_ok_def almacen_inicial_def)

lemma dict_ok_delete: "dict_ok d \<Longrightarrow> dict_ok (AList.delete k d)"
  by (simp add: dict_ok_def distinct_delete)

lemma list_all_setitem:
  "list_all P d \<Longrightarrow> P (k, v) \<Longrightarrow> list_all P (dict_setitem d k v)"
  unfolding dict_setitem_def by (induction d) auto

lemma list_all_delete: "list_all P d \<Longrightarrow> list_all P (AList.delete k d)"
  by (simp add: delete_filter list_all_iff)

lemma list_all_entradas_validas: "list_all P d \<Longrightarrow> list_all P (entradas_validas now d)"
  by (simp add: entradas_validas_def list_all_iff)

lemma tipos_ok_barrido: "tipos_ok s \<Longrightarrow> tipos_ok (almacen_barrido now s)"
  by (simp add: tipos_ok_def almacen_barrido_def list_all_entradas_validas split: option.splits)

lemma almacen_ok_barrido: "almacen_ok s \<Longrightarrow> almacen_ok (almacen_barrido now s)"
  by (simp add: almacen_ok_def claves_ok_barrido tipos_ok_barrido)

lemma almacen_ok_estadisticas:
  "almacen_ok (s\<lparr>estadisticas := e\<rparr>) = almacen_ok s"
  by (simp add: almacen_ok_def claves_ok_def tipos_ok_def)

lemma almacen_ok_almacenar_obra:
  assumes "almacen_ok s"
  shows "almacen_ok (snd (almacenar_obra now v s))"
proof (cases "es_ObraArte v")
  case False
  then show ?thesis using assms by (simp add: almacenar_obra_no_obra)
next
  case True
  then obtain w where v: "v = VObra w" by (cases v) simp_all
  let ?s0 = "s\<lparr>cache_obras := dict_setitem (cache_obras s) (id_obra w)
                  (EntradaCache now (VObra w) TIEMPO_VIDA_OBRAS)\<rparr>"
  have c: "claves_ok s" using assms by (simp add: almacen_ok_def)
  have "almacen_ok ?s0"
    using assms
    by (simp add: almacen_ok_def claves_ok_def tipos_ok_def dict_ok_setitem list_all_setitem
          EntradaCache_def)
  then show ?thesis
    unfolding v almacenar_obra_ok [OF c]
    by (simp add: Let_def almacen_ok_estadisticas almacen_ok_barrido)
qed

lemma almacen_ok_almacenar_resultado_busqueda:
  assumes "almacen_ok s"
  shows "almacen_ok (snd (almacenar_resultado_busqueda now k v s))"
proof (cases "es_lista v")
  case False
  then show ?thesis using assms by (simp add: almacenar_resultado_busqueda_def)
next
  case True
  then obtain l where v: "v = VLista l" by (cases v) simp_all
  let ?s0 = "s\<lparr>cache_busquedas := dict_setitem (cache_busquedas s) k
                  (EntradaCache now (VLista l) TIEMPO_VIDA_BUSQUEDAS)\<rparr>"
  have c: "claves_ok s" using assms by (simp add: almacen_ok_def)
  have "almacen_ok ?s0"
    using assms
    by (simp add: almacen_ok_def claves_ok_def tipos_ok_def dict_ok_setitem list_all_setitem
          EntradaCache_def)
  then show ?thesis
    unfolding v almacenar_resultado_busqueda_ok [OF c]
    by (simp add: Let_def almacen_ok_estadisticas almacen_ok_barrido)
qed

lemma almacen_ok_almacenar_ids_departamento:
  assumes "almacen_ok s"
  shows "almacen_ok (snd (almacenar_ids_departamento now k v s))"
proof (cases "es_lista v")
  case False
  then show ?thesis using assms by (simp add: almacenar_ids_departamento_def)
next
  case True
  then obtain l where v: "v = VLista l" by (cases v) simp_all
  show ?thesis
    using assms unfolding v almacenar_ids_departamento_eq
    by (simp add: almacen_ok_def claves_ok_def tipos_ok_def dict_ok_setitem list_all_setitem
          EntradaCache_def)
qed

lemma almacen_ok_almacenar_departamentos:
  assumes "almacen_ok s"
  shows "almacen_ok (snd (almacenar_departamentos now v s))"
  using assms
  by (simp add: almacenar_departamentos_def almacen_ok_def claves_ok_def tipos_ok_def
        EntradaCache_def)

lemma almacen_ok_obtener_obra:
  "almacen_ok s \<Longrightarrow> almacen_ok (snd (obtener_obra now k s))"
  by (simp add: obtener_obra_eq almacen_ok_def claves_ok_def tipos_ok_def dict_ok_delete
        list_all_delete split: option.split)

lemma almacen_ok_obtener_resultado_busqueda:
  "almacen_ok s \<Longrightarrow> almacen_ok (snd (obtener_resultado_busqueda now k s))"
  by (simp add: obtener_resultado_busqueda_eq almacen_ok_def claves_ok_def tipos_ok_def
        dict_ok_delete list_all_delete split: option.split)

lemma almacen_ok_obtener_ids_departamento:
  "almacen_ok s \<Longrightarrow> almacen_ok (snd (obtener_ids_departamento now k s))"
  by (simp add: obtener_ids_departamento_eq almacen_ok_def claves_ok_def tipos_ok_def
        dict_ok_delete list_all_delete split: option.split)

lemma almacen_ok_obtener_departamentos:
  "almacen_ok s \<Longrightarrow> almacen_ok (snd (obtener_departamentos now s))"
  by (auto simp: obtener_departamentos_eq almacen_ok_def claves_ok_def tipos_ok_def
        split: option.splits)

lemma almacen_ok_invalidar:
  assumes "almacen_ok s"
  shows "almacen_ok (snd (invalidar_cache_obras s))"
    and "almacen_ok (snd (invalidar_cache_departamentos s))"
    and "almacen_ok (snd (invalidar_cache_busquedas s))"
    and "almacen_ok (snd (invalidar_todo_cache s))"
  using assms
  by (simp_all add: invalidar_cache_obras_def invalidar_cache_departamentos_def
        invalidar_cache_busquedas_def invalidar_todo_cache_def almacen_ok_def claves_ok_def
        tipos_ok_def dict_ok_def)

lemma almacen_ok_limpiar_cache_manual:
  assumes "almacen_ok s"
  shows "almacen_ok (snd (limpiar_cache_manual now s))"
proof -
  have c: "claves_ok s" using assms by (simp add: almacen_ok_def)
  show ?thesis
    unfolding limpiar_cache_manual_ok [OF c] using almacen_ok_barrido [OF assms] by simp
qed

lemma almacen_ok_solo_lectura:
  "snd (buscar_obras_por_criterio now criterio s) = s"
  "snd (obtener_estadisticas_cache s) = s"
  by (simp_all add: buscar_obras_por_criterio_def obtener_estadisticas_cache_eq)

end
